theory Spec2Isabelle
  imports Complex_Main
begin

section \<open>Tables (pandas DataFrame) as used by data_preprocessing.py\<close>

text \<open>
  A table is an ordered list of named columns. A column has the pandas dtype
  \<open>object\<close> (strings read from the CSV file, \<open>None\<close> for a missing field) or a
  numeric dtype (\<open>None\<close> for NaN). All columns of a table have the same number of
  cells; \<open>read_csv\<close> gives every column a name of its own.
\<close>

datatype error = FileNotFoundError string | KeyError string | ValueError | LibraryError string

datatype cell = NaN | Str string | Num real

datatype column = ObjCol "string option list" | NumCol "real option list"

type_synonym frame = "(string \<times> column) list"

fun cells :: "column \<Rightarrow> cell list" where
  "cells (ObjCol xs) = map (\<lambda>x. case x of None \<Rightarrow> NaN | Some s \<Rightarrow> Str s) xs"
| "cells (NumCol xs) = map (\<lambda>x. case x of None \<Rightarrow> NaN | Some r \<Rightarrow> Num r) xs"

fun is_object :: "column \<Rightarrow> bool" where
  "is_object (ObjCol xs) = True"
| "is_object (NumCol xs) = False"

definition nrows :: "frame \<Rightarrow> nat" where
  "nrows df = (case df of [] \<Rightarrow> 0 | (n, c) # rest \<Rightarrow> length (cells c))"

definition columns :: "frame \<Rightarrow> string list" where
  "columns df = map fst df"

definition wf_frame :: "frame \<Rightarrow> bool" where
  "wf_frame df = (distinct (columns df) \<and> list_all (\<lambda>(n, c). length (cells c) = nrows df) df)"

definition row :: "frame \<Rightarrow> nat \<Rightarrow> cell list" where
  "row df i = map (\<lambda>(n, c). cells c ! i) df"

definition rows_of :: "frame \<Rightarrow> cell list list" where
  "rows_of df = map (row df) [0..<nrows df]"

fun take_cells :: "nat list \<Rightarrow> column \<Rightarrow> column" where
  "take_cells idx (ObjCol xs) = ObjCol (map (\<lambda>i. xs ! i) idx)"
| "take_cells idx (NumCol xs) = NumCol (map (\<lambda>i. xs ! i) idx)"

definition take_rows :: "nat list \<Rightarrow> frame \<Rightarrow> frame" where
  "take_rows idx df = map (\<lambda>(n, c). (n, take_cells idx c)) df"

subsection \<open>clean_data\<close>

text \<open>
  \<open>df.dropna()\<close> keeps the rows without a missing cell, \<open>df.drop_duplicates()\<close> keeps
  the first of the rows that are equal in every column; both keep the order of the rows.
\<close>

definition dropna :: "frame \<Rightarrow> frame" where
  "dropna df = take_rows (filter (\<lambda>i. NaN \<notin> set (row df i)) [0..<nrows df]) df"

definition drop_duplicates :: "frame \<Rightarrow> frame" where
  "drop_duplicates df =
     take_rows (filter (\<lambda>i. row df i \<notin> set (map (row df) [0..<i])) [0..<nrows df]) df"

definition clean_data :: "frame \<Rightarrow> frame" where
  "clean_data df = drop_duplicates (dropna df)"

subsection \<open>Column access\<close>

definition bindE :: "error + 'a \<Rightarrow> ('a \<Rightarrow> error + 'b) \<Rightarrow> error + 'b" where
  "bindE m f = (case m of Inl e \<Rightarrow> Inl e | Inr a \<Rightarrow> f a)"

text \<open>\<open>df[name]\<close> raises KeyError for a name that is not a column.\<close>

definition getitem :: "frame \<Rightarrow> string \<Rightarrow> error + column" where
  "getitem df name = (case map_of df name of None \<Rightarrow> Inl (KeyError name) | Some c \<Rightarrow> Inr c)"

text \<open>\<open>df[name] = c\<close> replaces the column of that name where it stands, and appends a
  new last column otherwise.\<close>

fun setitem :: "frame \<Rightarrow> string \<Rightarrow> column \<Rightarrow> frame" where
  "setitem [] name c = [(name, c)]"
| "setitem ((n, c0) # df) name c =
     (if n = name then (n, c) # df else (n, c0) # setitem df name c)"

text \<open>\<open>df.drop(columns=names)\<close> raises KeyError when one of the names is not a column.\<close>

definition drop_columns :: "frame \<Rightarrow> string list \<Rightarrow> error + frame" where
  "drop_columns df names =
     (case filter (\<lambda>n. n \<notin> set (columns df)) names of
        [] \<Rightarrow> Inr (filter (\<lambda>(n, c). n \<notin> set names) df)
      | n # rest \<Rightarrow> Inl (KeyError n))"

text \<open>\<open>df[names]\<close> with a list of names: the named columns in the order of the list.\<close>

definition select_columns :: "frame \<Rightarrow> string list \<Rightarrow> error + frame" where
  "select_columns df names =
     (case filter (\<lambda>n. n \<notin> set (columns df)) names of
        [] \<Rightarrow> Inr (map (\<lambda>n. (n, the (map_of df n))) names)
      | n # rest \<Rightarrow> Inl (KeyError n))"

subsection \<open>Series operations\<close>

text \<open>
  \<open>Series.apply(f)\<close> with a function that returns the integers 0 and 1 gives an integer
  column; on a column without cells pandas returns an empty column of the dtype it had.
\<close>

definition series_apply :: "(cell \<Rightarrow> real) \<Rightarrow> column \<Rightarrow> column" where
  "series_apply f c = (if cells c = [] then c else NumCol (map (\<lambda>x. Some (f x)) (cells c)))"

text \<open>\<open>Series.unique()\<close>: the distinct values in the order in which they first occur;
  \<open>Series.nunique()\<close> counts them, NaN left out.\<close>

fun first_seen :: "'a list \<Rightarrow> 'a list" where
  "first_seen [] = []"
| "first_seen (x # xs) = x # first_seen (filter (\<lambda>y. y \<noteq> x) xs)"

definition unique :: "column \<Rightarrow> cell list" where
  "unique c = first_seen (cells c)"

definition nunique :: "column \<Rightarrow> nat" where
  "nunique c = length (filter (\<lambda>x. x \<noteq> NaN) (unique c))"

text \<open>\<open>Series.map(d)\<close> with a dict: a value that is no key of the dict becomes NaN.\<close>

definition series_map :: "(cell \<times> real) list \<Rightarrow> column \<Rightarrow> column" where
  "series_map d c = NumCol (map (map_of d) (cells c))"

subsection \<open>main: the feature transformer\<close>

definition obesity_labels :: "string list" where
  "obesity_labels = [''Obesity_Type_I'', ''Obesity_Type_II'', ''Obesity_Type_III'',
                     ''Overweight_Level_I'', ''Overweight_Level_II'']"

text \<open>The three lambdas of lines 26 and 45 to 47. A number or NaN is never equal to a string.\<close>

definition is_obese :: "cell \<Rightarrow> real" where
  "is_obese x = (if x \<in> set (map Str obesity_labels) then 1 else 0)"

definition is_public_transportation :: "cell \<Rightarrow> real" where
  "is_public_transportation x = (if x = Str ''Public_Transportation'' then 1 else 0)"

definition is_frequent :: "cell \<Rightarrow> real" where
  "is_frequent x = (if x \<in> set [Str ''Frequently'', Str ''Always''] then 1 else 0)"

text \<open>Lines 26 and 27: the target column, then the label column is dropped.\<close>

definition add_target :: "frame \<Rightarrow> error + frame" where
  "add_target df =
     bindE (getitem df ''NObeyesdad'') (\<lambda>c.
       drop_columns (setitem df ''Obesity_Binary'' (series_apply is_obese c)) [''NObeyesdad''])"

text \<open>Lines 30 to 39: the feature columns by dtype.\<close>

definition cat_columns :: "frame \<Rightarrow> string list" where
  "cat_columns features = map fst (filter (\<lambda>(n, c). is_object c) features)"

definition num_columns :: "frame \<Rightarrow> string list" where
  "num_columns features = map fst (filter (\<lambda>(n, c). \<not> is_object c) features)"

text \<open>Lines 41 to 43: the loop over the categorical columns.\<close>

fun binarize :: "string list \<Rightarrow> frame \<Rightarrow> error + frame" where
  "binarize [] df = Inr df"
| "binarize (col # cols) df =
     bindE (getitem df col) (\<lambda>c.
       if nunique c = 2
       then binarize cols (setitem df col (series_map [(unique c ! 0, 0), (unique c ! 1, 1)] c))
       else binarize cols df)"

text \<open>Lines 45 to 47.\<close>

definition add_indicators :: "frame \<Rightarrow> error + frame" where
  "add_indicators df =
     bindE (getitem df ''MTRANS'') (\<lambda>m.
     let df1 = setitem df ''MTRANS_Binary'' (series_apply is_public_transportation m) in
     bindE (getitem df1 ''CAEC'') (\<lambda>e.
     let df2 = setitem df1 ''CAEC_binary'' (series_apply is_frequent e) in
     bindE (getitem df2 ''CALC'') (\<lambda>a.
     Inr (setitem df2 ''CALC_binary'' (series_apply is_frequent a)))))"

text \<open>
  Lines 51 and 52. \<open>StandardScaler\<close> is a library of its own: \<open>fit_transform\<close> is a
  parameter here, a function from the matrix of the selected columns (given column by
  column, \<open>None\<close> for NaN) to a matrix or an exception. What the model keeps of the
  library is its input validation (an array without a row or without a column is
  rejected with ValueError, as is a column that holds strings) and the shape check of
  the assignment \<open>df[num_columns] = ...\<close>.
\<close>

type_synonym scaler = "real option list list \<Rightarrow> error + real option list list"

fun float_column :: "column \<Rightarrow> error + real option list" where
  "float_column (NumCol xs) = Inr xs"
| "float_column (ObjCol xs) = Inl ValueError"

fun float_matrix :: "frame \<Rightarrow> error + real option list list" where
  "float_matrix [] = Inr []"
| "float_matrix ((n, c) # df) =
     bindE (float_column c) (\<lambda>xs. bindE (float_matrix df) (\<lambda>X. Inr (xs # X)))"

fun assign_columns :: "frame \<Rightarrow> (string \<times> column) list \<Rightarrow> frame" where
  "assign_columns df [] = df"
| "assign_columns df ((n, c) # rest) = assign_columns (setitem df n c) rest"

definition scale_numeric :: "scaler \<Rightarrow> string list \<Rightarrow> frame \<Rightarrow> error + frame" where
  "scale_numeric fit_transform names df =
     bindE (select_columns df names) (\<lambda>sel.
       if names = [] \<or> nrows df = 0 then Inl ValueError
       else
         bindE (float_matrix sel) (\<lambda>X.
         bindE (fit_transform X) (\<lambda>Y.
           if length Y = length names \<and> list_all (\<lambda>ys. length ys = nrows df) Y
           then Inr (assign_columns df (zip names (map NumCol Y)))
           else Inl ValueError)))"

text \<open>Lines 26 to 52 of \<open>main\<close>, from the cleaned table to the table that is saved.\<close>

definition transform :: "scaler \<Rightarrow> frame \<Rightarrow> error + frame" where
  "transform fit_transform df =
     bindE (add_target df) (\<lambda>df1.
     bindE (drop_columns df1 [''Obesity_Binary'']) (\<lambda>features.
     bindE (binarize (cat_columns features) df1) (\<lambda>df2.
     bindE (add_indicators df2) (\<lambda>df3.
     bindE (drop_columns df3 [''MTRANS'', ''CALC'', ''CAEC'']) (\<lambda>df4.
       scale_numeric fit_transform (num_columns features) df4)))))"

subsection \<open>Files, main and the module\<close>

text \<open>
  The CSV files by path, each with the table that \<open>read_csv\<close> makes of it.
  \<open>load_data\<close> fails on a path that is no file; \<open>save_data\<close> writes the table.
\<close>

type_synonym csv_files = "string \<Rightarrow> frame option"

definition load_data :: "string \<Rightarrow> csv_files \<Rightarrow> error + frame" where
  "load_data input_path fs =
     (case fs input_path of None \<Rightarrow> Inl (FileNotFoundError input_path) | Some df \<Rightarrow> Inr df)"

definition save_data :: "frame \<Rightarrow> string \<Rightarrow> csv_files \<Rightarrow> csv_files" where
  "save_data df output_path fs = fs(output_path \<mapsto> df)"

text \<open>
  \<open>main\<close>, lines 21 to 58. The statement \<open>if __name__ == "__main__": main(...)\<close> of lines
  57 and 58 is indented like the statements above it, so it is the last statement of the
  body of \<open>main\<close>: \<open>name\<close> is the module's \<open>__name__\<close>. With \<open>__main__\<close> for it,
  \<open>main\<close> calls itself again and again; not returning is the value \<open>None\<close>.
\<close>

partial_function (option) main ::
  "scaler \<Rightarrow> string \<Rightarrow> string \<Rightarrow> string \<Rightarrow> csv_files \<Rightarrow> (error + csv_files) option" where
  "main fit_transform name input_path output_path fs =
     (case load_data input_path fs of
        Inl e \<Rightarrow> Some (Inl e)
      | Inr df \<Rightarrow>
          (case transform fit_transform (clean_data df) of
             Inl e \<Rightarrow> Some (Inl e)
           | Inr out \<Rightarrow>
               (if name = ''__main__''
                then main fit_transform name ''./data/ObesityDataSet.csv'' ''./data/clean_data.csv''
                       (save_data out output_path fs)
                else Some (Inr (save_data out output_path fs)))))"

text \<open>
  Running the file: the statements of the module are the two imports and the four
  \<open>def\<close> statements, which bind \<open>load_data\<close>, \<open>clean_data\<close>, \<open>save_data\<close> and \<open>main\<close>
  and call none of them. \<open>process_data\<close> of pipe.py runs the file as a script.
\<close>

definition data_preprocessing_module ::
  "scaler \<Rightarrow> string \<Rightarrow> csv_files \<Rightarrow> (error + csv_files) option" where
  "data_preprocessing_module fit_transform name fs = Some (Inr fs)"

definition process_data :: "scaler \<Rightarrow> csv_files \<Rightarrow> (error + csv_files) option" where
  "process_data fit_transform fs = data_preprocessing_module fit_transform ''__main__'' fs"

subsection \<open>StandardScaler over the reals\<close>

text \<open>
  What scikit-learn documents for \<open>StandardScaler().fit_transform\<close>, read over the real
  numbers: every column is shifted by its mean and divided by its population standard
  deviation, NaN cells are left out of both and stay NaN, and a column of standard
  deviation zero is divided by one. Floating-point rounding is not part of this model.
\<close>

definition mean :: "real list \<Rightarrow> real" where
  "mean xs = sum_list xs / real (length xs)"

definition variance :: "real list \<Rightarrow> real" where
  "variance xs = mean (map (\<lambda>x. (x - mean xs)\<^sup>2) xs)"

definition standard_scale :: "real option list \<Rightarrow> real option list" where
  "standard_scale col =
     (let xs = concat (map (\<lambda>x. case x of None \<Rightarrow> [] | Some r \<Rightarrow> [r]) col);
          s = sqrt (variance xs);
          scale = (if s = 0 then 1 else s)
      in map (map_option (\<lambda>x. (x - mean xs) / scale)) col)"

definition standard_scaler :: scaler where
  "standard_scaler X = Inr (map standard_scale X)"

section \<open>experiments.py\<close>

subsection \<open>Data\<close>

text \<open>The three kinds of model of \<open>run_experiments\<close>, with the hyperparameters that the
  file sets (\<open>random_state=42\<close> everywhere).\<close>

datatype estimator =
    LogisticRegression nat real
  | SVC string
  | DecisionTreeClassifier nat

text \<open>One row of the table that \<open>run_experiments\<close> returns.\<close>

record run_record =
  RunID :: string
  Model :: string
  accuracy :: real
  precision :: real
  recall :: real
  f1_score :: real
  confusion_matrix_path :: string
  classification_report_path :: string

text \<open>A run of the MLflow tracking store.\<close>

record mlflow_run =
  run_name :: string
  params :: "(string \<times> string) list"
  metrics :: "string \<Rightarrow> real option"
  artifacts :: "string list"
  status :: string
  start_time :: int
  end_time :: "int option"

text \<open>What \<open>get_mlflow_model_performance\<close> keeps of a run.\<close>

record performance =
  perf_model_name :: string
  perf_metrics :: "string \<Rightarrow> real option"
  perf_parameters :: "(string \<times> string) list"
  perf_start_time :: int
  perf_end_time :: "int option"
  perf_duration :: real
  perf_status :: string

text \<open>The four sentences of \<open>insights\<close>; the first names a model.\<close>

datatype insight = Best_model_sentence string | Other_models_sentence
  | Logistic_regression_sentence | Decision_tree_sentence

type_synonym display_row = "string \<times> real \<times> real \<times> real \<times> real"

text \<open>The variables that \<open>generate_report\<close> gives to the template.\<close>

record report_context =
  ctx_experiment_name :: string
  ctx_runs :: "display_row list"
  ctx_full_runs :: "run_record list"
  ctx_model_reports :: "(string \<times> string) list"
  ctx_insights :: "insight list"
  ctx_graph_path :: string
  ctx_current_date :: string
  ctx_experiment_id :: string
  best_accuracy :: real
  best_precision :: real
  best_recall :: real
  best_f1_score :: real
  ctx_mlflow_plot :: "(string \<times> string) list"
  ctx_performance_data :: "(string \<times> performance) list"

text \<open>
  What a file holds: text, or a picture, named by what was drawn, or the HTML document
  that a template gives for a context.
\<close>

datatype content =
    Text string
  | Confusion_matrix_plot string "nat list list"
  | Metrics_bar_chart "display_row list"
  | Duration_bar_chart "string list" "real list"
  | Html string report_context

text \<open>
  The state that the functions of experiments.py read and write: the files, the tracking
  store, what was given to \<open>task.connect\<close>, what was printed, and the DataFrame objects,
  which are passed by reference.
\<close>

record world =
  files :: "string \<Rightarrow> content option"
  mlruns :: "string \<Rightarrow> mlflow_run option"
  connected :: "(real \<times> real \<times> real \<times> real \<times> string \<times> string) list"
  stdout :: "string list"
  frames :: "nat \<Rightarrow> run_record list option"
  next_frame :: nat

text \<open>What lines 74 to 81, 55, 85 and 99 compute for a model on the fixed split.\<close>

record evaluation =
  ev_accuracy :: real
  ev_precision :: real
  ev_recall :: real
  ev_f1 :: real
  ev_confusion :: "nat list list"
  ev_report :: string
  ev_params :: "(string \<times> string) list"

text \<open>
  The libraries, as parameters: fitting and scoring a model (scikit-learn; it may raise),
  the identifier MLflow gives a new run and the times it records for it,
  \<open>mlflow.sklearn.log_model\<close> (it may raise), the clock, and Jinja2 (parsing and
  rendering may raise).
\<close>

record env =
  fit_and_score :: "estimator \<Rightarrow> error + evaluation"
  new_run_id :: "(string \<Rightarrow> mlflow_run option) \<Rightarrow> string"
  run_times :: "string \<Rightarrow> int \<times> int"
  log_model :: "estimator \<Rightarrow> string \<Rightarrow> error option"
  strftime :: "string \<Rightarrow> string"
  template_error :: "string \<Rightarrow> error option"
  render_error :: "string \<Rightarrow> report_context \<Rightarrow> error option"

subsection \<open>Statements that read and write the state, and may raise\<close>

type_synonym 'a io = "world \<Rightarrow> (error + 'a) \<times> world"

definition returnS :: "'a \<Rightarrow> 'a io" where
  "returnS x = (\<lambda>w. (Inr x, w))"

definition raiseS :: "error \<Rightarrow> 'a io" where
  "raiseS e = (\<lambda>w. (Inl e, w))"

definition bindS :: "'a io \<Rightarrow> ('a \<Rightarrow> 'b io) \<Rightarrow> 'b io" where
  "bindS m f = (\<lambda>w. case m w of (Inl e, w') \<Rightarrow> (Inl e, w') | (Inr a, w') \<Rightarrow> f a w')"

definition print :: "string \<Rightarrow> unit io" where
  "print s = (\<lambda>w. (Inr (), w\<lparr>stdout := stdout w @ [s]\<rparr>))"

definition write_file :: "string \<Rightarrow> content \<Rightarrow> unit io" where
  "write_file path c = (\<lambda>w. (Inr (), w\<lparr>files := (files w)(path \<mapsto> c)\<rparr>))"

definition read_text :: "string \<Rightarrow> string io" where
  "read_text path =
     (\<lambda>w. case files w path of
            None \<Rightarrow> (Inl (FileNotFoundError path), w)
          | Some (Text s) \<Rightarrow> (Inr s, w)
          | Some other \<Rightarrow> (Inl (LibraryError ''UnicodeDecodeError''), w))"

definition output_dir :: string where
  "output_dir = ''mlflow_output''"

definition experiment_name :: string where
  "experiment_name = ''obesity_prediction_experiment''"

definition path_join :: "string \<Rightarrow> string \<Rightarrow> string" where
  "path_join dir name = dir @ ''/'' @ name"

text \<open>\<open>s.lower().replace(' ', '_')\<close> on the ASCII names of the models.\<close>

definition lower_char :: "char \<Rightarrow> char" where
  "lower_char c = (let n = (of_char c :: nat) in if 65 \<le> n \<and> n \<le> 90 then char_of (n + 32) else c)"

definition file_stem :: "string \<Rightarrow> string" where
  "file_stem model_name = map (\<lambda>c. if c = CHR '' '' then CHR ''_'' else c) (map lower_char model_name)"


text \<open>\<open>d[k] = v\<close> on a dict, which keeps its keys in the order of their first insertion.\<close>

fun dict_set :: "('k \<times> 'v) list \<Rightarrow> 'k \<Rightarrow> 'v \<Rightarrow> ('k \<times> 'v) list" where
  "dict_set [] k v = [(k, v)]"
| "dict_set ((k0, v0) # d) k v = (if k0 = k then (k0, v) # d else (k0, v0) # dict_set d k v)"

subsection \<open>The tracking store\<close>

definition update_run :: "string \<Rightarrow> (mlflow_run \<Rightarrow> mlflow_run) \<Rightarrow> unit io" where
  "update_run run_id f =
     (\<lambda>w. (Inr (), case mlruns w run_id of
                       None \<Rightarrow> w
                     | Some r \<Rightarrow> w\<lparr>mlruns := (mlruns w)(run_id \<mapsto> f r)\<rparr>))"

definition log_param :: "string \<Rightarrow> string \<Rightarrow> string \<Rightarrow> unit io" where
  "log_param run_id k v = update_run run_id (\<lambda>r. r\<lparr>params := params r @ [(k, v)]\<rparr>)"

fun log_params :: "string \<Rightarrow> (string \<times> string) list \<Rightarrow> unit io" where
  "log_params run_id [] = returnS ()"
| "log_params run_id ((k, v) # ps) = bindS (log_param run_id k v) (\<lambda>u. log_params run_id ps)"

definition log_metric :: "string \<Rightarrow> string \<Rightarrow> real \<Rightarrow> unit io" where
  "log_metric run_id k v = update_run run_id (\<lambda>r. r\<lparr>metrics := (metrics r)(k \<mapsto> v)\<rparr>)"

definition log_artifact :: "string \<Rightarrow> string \<Rightarrow> unit io" where
  "log_artifact run_id path = update_run run_id (\<lambda>r. r\<lparr>artifacts := artifacts r @ [path]\<rparr>)"

text \<open>\<open>with mlflow.start_run(run_name=...) as run\<close>: the run is made, the block runs, and
  the run is ended as FINISHED, or as FAILED when the block raises.\<close>

definition start_run :: "env \<Rightarrow> string \<Rightarrow> string io" where
  "start_run ev name =
     (\<lambda>w. let run_id = new_run_id ev (mlruns w) in
        (Inr run_id,
         w\<lparr>mlruns := (mlruns w)(run_id \<mapsto>
              \<lparr>run_name = name, params = [], metrics = Map.empty, artifacts = [],
               status = ''RUNNING'', start_time = fst (run_times ev run_id),
               end_time = None\<rparr>)\<rparr>))"

definition end_run :: "env \<Rightarrow> string \<Rightarrow> string \<Rightarrow> unit io" where
  "end_run ev run_id st =
     update_run run_id (\<lambda>r. r\<lparr>status := st, end_time := Some (snd (run_times ev run_id))\<rparr>)"

definition with_run :: "env \<Rightarrow> string \<Rightarrow> (string \<Rightarrow> 'a io) \<Rightarrow> 'a io" where
  "with_run ev name body =
     bindS (start_run ev name) (\<lambda>run_id w.
       case body run_id w of
         (Inl e, w') \<Rightarrow> (Inl e, snd (end_run ev run_id ''FAILED'' w'))
       | (Inr a, w') \<Rightarrow> (Inr a, snd (end_run ev run_id ''FINISHED'' w')))"

text \<open>\<open>mlflow.get_run(run_id).data.metrics[key]\<close>.\<close>

definition get_run :: "string \<Rightarrow> mlflow_run io" where
  "get_run run_id =
     (\<lambda>w. case mlruns w run_id of
            None \<Rightarrow> (Inl (LibraryError ''MlflowException''), w)
          | Some r \<Rightarrow> (Inr r, w))"

definition get_run_metric :: "string \<Rightarrow> string \<Rightarrow> real io" where
  "get_run_metric run_id key =
     bindS (get_run run_id) (\<lambda>r.
       case metrics r key of None \<Rightarrow> raiseS (KeyError key) | Some v \<Rightarrow> returnS v)"

subsection \<open>save_confusion_matrix and log_model_with_metrics\<close>

text \<open>The matrix is the one that line 55 computes from the predictions.\<close>

definition save_confusion_matrix :: "nat list list \<Rightarrow> string \<Rightarrow> string io" where
  "save_confusion_matrix cm name =
     (let filename = ''confusion_matrix_'' @ file_stem name @ ''.png'' in
      bindS (write_file (path_join output_dir filename) (Confusion_matrix_plot name cm))
        (\<lambda>u. returnS filename))"

text \<open>Lines 68 to 121; it returns the dict of lines 117 to 121 as a triple. Line 123
  stands after the \<open>return\<close> and is never run.\<close>

definition log_model_with_metrics ::
  "env \<Rightarrow> estimator \<Rightarrow> string \<Rightarrow> (string \<times> string \<times> string) io" where
  "log_model_with_metrics ev model name =
     (let timestamp = strftime ev ''%Y%m%d_%H%M%S'' in
      with_run ev (name @ ''_'' @ timestamp) (\<lambda>run_id.
        case fit_and_score ev model of
          Inl e \<Rightarrow> raiseS e
        | Inr sc \<Rightarrow>
            bindS (log_param run_id ''model'' name) (\<lambda>u.
            bindS (log_params run_id (ev_params sc)) (\<lambda>u.
            bindS (log_metric run_id ''accuracy'' (ev_accuracy sc)) (\<lambda>u.
            bindS (log_metric run_id ''precision'' (ev_precision sc)) (\<lambda>u.
            bindS (log_metric run_id ''recall'' (ev_recall sc)) (\<lambda>u.
            bindS (log_metric run_id ''f1_score'' (ev_f1 sc)) (\<lambda>u.
            bindS (save_confusion_matrix (ev_confusion sc) name) (\<lambda>cm_filename.
            bindS (log_artifact run_id (path_join output_dir cm_filename)) (\<lambda>u.
            let report_filename = ''classification_report_'' @ file_stem name @ ''.txt'';
                report_save_path = path_join output_dir report_filename in
            bindS (write_file report_save_path (Text (ev_report sc))) (\<lambda>u.
            bindS (log_artifact run_id report_save_path) (\<lambda>u.
            case log_model ev model name of
              Some e \<Rightarrow> raiseS e
            | None \<Rightarrow>
                bindS (log_artifact run_id ''model'') (\<lambda>u.
                returnS (run_id, cm_filename, report_filename))))))))))))))"

subsection \<open>run_experiments\<close>

definition experiments :: "(estimator \<times> string) list" where
  "experiments =
     [(LogisticRegression 1000 1, ''Logistic Regression (C=1.0)''),
      (LogisticRegression 2000 (1 / 2), ''Logistic Regression (C=0.5)''),
      (SVC ''linear'', ''SVM (Linear Kernel)''),
      (DecisionTreeClassifier 10, ''Decision Tree (max_depth=10)''),
      (DecisionTreeClassifier 15, ''Decision Tree (max_depth=15)'')]"

definition task_connect :: "real \<times> real \<times> real \<times> real \<times> string \<times> string \<Rightarrow> unit io" where
  "task_connect d = (\<lambda>w. (Inr (), w\<lparr>connected := connected w @ [d]\<rparr>))"

text \<open>The body of the loop of lines 152 to 184, for one entry of the list; it returns
  the record that line 159 appends to \<open>results\<close>.\<close>

definition run_experiment :: "env \<Rightarrow> estimator \<times> string \<Rightarrow> run_record io" where
  "run_experiment ev experiment =
     bindS (print (''Starting experiment with '' @ snd experiment @ ''...'')) (\<lambda>u.
     bindS (log_model_with_metrics ev (fst experiment) (snd experiment)) (\<lambda>(run_id, cm_path, report_path).
     bindS (get_run_metric run_id ''accuracy'') (\<lambda>a.
     bindS (get_run_metric run_id ''precision'') (\<lambda>p.
     bindS (get_run_metric run_id ''recall'') (\<lambda>r.
     bindS (get_run_metric run_id ''f1_score'') (\<lambda>f.
     bindS (get_run_metric run_id ''accuracy'') (\<lambda>a'.
     bindS (get_run_metric run_id ''precision'') (\<lambda>p'.
     bindS (get_run_metric run_id ''recall'') (\<lambda>r'.
     bindS (get_run_metric run_id ''f1_score'') (\<lambda>f'.
     bindS (task_connect (a', p', r', f', cm_path, report_path)) (\<lambda>u.
     bindS (print (''Completed experiment with '' @ snd experiment)) (\<lambda>u.
     returnS \<lparr>RunID = run_id, Model = snd experiment, accuracy = a, precision = p, recall = r,
              f1_score = f, confusion_matrix_path = cm_path,
              classification_report_path = report_path\<rparr>))))))))))))"

fun run_loop :: "env \<Rightarrow> (estimator \<times> string) list \<Rightarrow> run_record list \<Rightarrow> run_record list io" where
  "run_loop ev [] results = returnS results"
| "run_loop ev (experiment # rest) results =
     bindS (run_experiment ev experiment) (\<lambda>r. run_loop ev rest (results @ [r]))"

text \<open>\<open>pd.DataFrame(results)\<close> makes a new table; the caller gets a reference to it.\<close>

definition new_frame :: "run_record list \<Rightarrow> nat io" where
  "new_frame rs =
     (\<lambda>w. (Inr (next_frame w),
            w\<lparr>frames := (frames w)(next_frame w \<mapsto> rs), next_frame := Suc (next_frame w)\<rparr>))"

definition run_experiments :: "env \<Rightarrow> nat io" where
  "run_experiments ev = bindS (run_loop ev experiments []) (\<lambda>results. new_frame results)"


subsection \<open>generate_report\<close>

text \<open>
  \<open>Series.round(4)\<close>, read over the reals: the nearest multiple of \<open>1/10000\<close>, the even
  one of the two when they are equally near.
\<close>

definition round_half_even :: "real \<Rightarrow> int" where
  "round_half_even x =
     (let f = \<lfloor>x\<rfloor>; d = x - of_int f in
      if d < 1 / 2 then f else if 1 / 2 < d then f + 1 else if even f then f else f + 1)"

definition round4 :: "real \<Rightarrow> real" where
  "round4 x = of_int (round_half_even (x * 10000)) / 10000"

text \<open>\<open>filtered_runs[metric] = filtered_runs[metric].round(4)\<close>: the table that the
  caller passed is changed where it stands. A table without rows has no columns.\<close>

definition round_column :: "string \<Rightarrow> run_record \<Rightarrow> run_record" where
  "round_column metric r =
     (if metric = ''accuracy'' then r\<lparr>accuracy := round4 (accuracy r)\<rparr>
      else if metric = ''precision'' then r\<lparr>precision := round4 (precision r)\<rparr>
      else if metric = ''recall'' then r\<lparr>recall := round4 (recall r)\<rparr>
      else if metric = ''f1_score'' then r\<lparr>f1_score := round4 (f1_score r)\<rparr>
      else r)"

definition round_in_place :: "nat \<Rightarrow> string \<Rightarrow> unit io" where
  "round_in_place ref metric =
     (\<lambda>w. case frames w ref of
            None \<Rightarrow> (Inl (KeyError metric), w)
          | Some rs \<Rightarrow>
              if rs = [] then (Inl (KeyError metric), w)
              else (Inr (), w\<lparr>frames := (frames w)(ref \<mapsto> map (round_column metric) rs)\<rparr>))"

fun round_metrics :: "nat \<Rightarrow> string list \<Rightarrow> unit io" where
  "round_metrics ref [] = returnS ()"
| "round_metrics ref (metric # rest) =
     bindS (round_in_place ref metric) (\<lambda>u. round_metrics ref rest)"

definition read_frame :: "nat \<Rightarrow> run_record list io" where
  "read_frame ref =
     (\<lambda>w. case frames w ref of
            None \<Rightarrow> (Inl (KeyError ''RunID''), w)
          | Some rs \<Rightarrow> (Inr rs, w))"

text \<open>\<open>Series.idxmax()\<close>: the label of the first row that holds the greatest value; the
  rows of the table of \<open>run_experiments\<close> are labelled 0, 1, ...\<close>

fun idxmax_from :: "real \<Rightarrow> nat \<Rightarrow> nat \<Rightarrow> real list \<Rightarrow> nat" where
  "idxmax_from best pos i [] = pos"
| "idxmax_from best pos i (x # xs) =
     (if best < x then idxmax_from x i (Suc i) xs else idxmax_from best pos (Suc i) xs)"

definition idxmax :: "real list \<Rightarrow> error + nat" where
  "idxmax xs = (case xs of [] \<Rightarrow> Inl ValueError | x # rest \<Rightarrow> Inr (idxmax_from x 0 1 rest))"

definition display :: "run_record \<Rightarrow> display_row" where
  "display r = (Model r, accuracy r, precision r, recall r, f1_score r)"

text \<open>Lines 256 to 261.\<close>

fun load_reports :: "run_record list \<Rightarrow> (string \<times> string) list \<Rightarrow> (string \<times> string) list io" where
  "load_reports [] model_reports = returnS model_reports"
| "load_reports (r # rest) model_reports =
     bindS (read_text (path_join output_dir (classification_report_path r))) (\<lambda>t.
       load_reports rest (dict_set model_reports (Model r) t))"

text \<open>\<open>get_mlflow_model_performance\<close>, lines 297 to 320; the second argument is the
  dict \<open>performance_data\<close> built so far.\<close>

definition performance_of :: "mlflow_run \<Rightarrow> error + performance" where
  "performance_of r =
     (case end_time r of
        None \<Rightarrow> Inl (LibraryError ''TypeError'')
      | Some t \<Rightarrow>
          Inr \<lparr>perf_model_name = (case map_of (params r) ''model'' of
                                       None \<Rightarrow> ''Unknown Model'' | Some v \<Rightarrow> v),
               perf_metrics = metrics r,
               perf_parameters = params r,
               perf_start_time = start_time r,
               perf_end_time = end_time r,
               perf_duration = real_of_int (t - start_time r) / 1000,
               perf_status = status r\<rparr>)"

fun get_mlflow_model_performance ::
  "string list \<Rightarrow> (string \<times> performance) list \<Rightarrow> (string \<times> performance) list io" where
  "get_mlflow_model_performance [] performance_data = returnS performance_data"
| "get_mlflow_model_performance (run_id # rest) performance_data =
     bindS (get_run run_id) (\<lambda>r.
       case performance_of r of
         Inl e \<Rightarrow> raiseS e
       | Inr pf \<Rightarrow> get_mlflow_model_performance rest (dict_set performance_data run_id pf))"

definition generate_mlflow_performance_plot ::
  "(string \<times> performance) list \<Rightarrow> (string \<times> string) list io" where
  "generate_mlflow_performance_plot performance_data =
     (let durations = map (\<lambda>(k, d). perf_duration d) performance_data;
          model_names = map (\<lambda>(k, d). perf_model_name d) performance_data in
      bindS (write_file (path_join output_dir ''model_durations.png'')
               (Duration_bar_chart model_names durations)) (\<lambda>u.
      returnS [(''duration_plot'', ''model_durations.png'')]))"

definition enhance_report_generation ::
  "nat \<Rightarrow> ((string \<times> string) list \<times> (string \<times> performance) list) io" where
  "enhance_report_generation ref =
     bindS (read_frame ref) (\<lambda>filtered_runs.
     bindS (get_mlflow_model_performance (map RunID filtered_runs) []) (\<lambda>performance_data.
     bindS (generate_mlflow_performance_plot performance_data) (\<lambda>performance_plot.
     returnS (performance_plot, performance_data))))"

text \<open>\<open>generate_report\<close>, lines 192 to 294. \<open>filtered_runs\<close> is a reference to the table
  of the caller.\<close>

definition generate_report :: "env \<Rightarrow> nat \<Rightarrow> unit io" where
  "generate_report ev ref =
     bindS (round_metrics ref [''accuracy'', ''precision'', ''recall'', ''f1_score'']) (\<lambda>u.
     bindS (read_frame ref) (\<lambda>filtered_runs.
     let filtered_runs_display = map display filtered_runs;
         graph_filename = ''performance_comparison.png'' in
     bindS (write_file (path_join output_dir graph_filename)
              (Metrics_bar_chart filtered_runs_display)) (\<lambda>u.
     case idxmax (map f1_score filtered_runs) of
       Inl e \<Rightarrow> raiseS e
     | Inr by_f1 \<Rightarrow>
     let insights = [Best_model_sentence (Model (filtered_runs ! by_f1)), Other_models_sentence,
                     Logistic_regression_sentence, Decision_tree_sentence];
         template_path = ''report_template.html'';
         output_path = path_join output_dir ''index.html'';
         experiment_id = strftime ev ''%Y%m%d%H%M%S'';
         current_date = strftime ev ''%Y-%m-%d %H:%M:%S'' in
     case idxmax (map accuracy filtered_runs) of
       Inl e \<Rightarrow> raiseS e
     | Inr by_accuracy \<Rightarrow>
     let best_model = filtered_runs ! by_accuracy in
     bindS (load_reports filtered_runs []) (\<lambda>model_reports.
     bindS (read_text template_path) (\<lambda>template.
     case template_error ev template of
       Some e \<Rightarrow> raiseS e
     | None \<Rightarrow>
     bindS (enhance_report_generation ref) (\<lambda>(performance_plot, performance_data).
     let template_context =
           \<lparr>ctx_experiment_name = experiment_name,
            ctx_runs = filtered_runs_display,
            ctx_full_runs = filtered_runs,
            ctx_model_reports = model_reports,
            ctx_insights = insights,
            ctx_graph_path = graph_filename,
            ctx_current_date = current_date,
            ctx_experiment_id = experiment_id,
            best_accuracy = accuracy best_model,
            best_precision = precision best_model,
            best_recall = recall best_model,
            best_f1_score = f1_score best_model,
            ctx_mlflow_plot = performance_plot,
            ctx_performance_data = performance_data\<rparr> in
     case render_error ev template template_context of
       Some e \<Rightarrow> raiseS e
     | None \<Rightarrow>
     bindS (write_file output_path (Html template template_context)) (\<lambda>u.
     print (''Report generated and saved to '' @ output_path))))))))"

text \<open>Lines 369 to 375.\<close>

definition experiments_main :: "env \<Rightarrow> unit io" where
  "experiments_main ev =
     bindS (print ''Starting experiments...'') (\<lambda>u.
     bindS (run_experiments ev) (\<lambda>experiment_results.
     bindS (print ''Completed experiments'') (\<lambda>u.
     bindS (print ''Generating report...'') (\<lambda>u.
     generate_report ev experiment_results))))"

text \<open>The four metrics of a row, rounded.\<close>



text \<open>A statement that leaves the DataFrame objects as they are.\<close>

definition keeps_frames :: "'a io \<Rightarrow> bool" where
  "keeps_frames m = (\<forall>w. frames (snd (m w)) = frames w \<and> next_frame (snd (m w)) = next_frame w)"

section \<open>Example tables\<close>

text \<open>A small raw table: its third row has a missing field, its fourth row repeats the
  first.\<close>

definition example_raw :: frame where
  "example_raw =
     [(''Gender'', ObjCol [Some ''Male'', Some ''Female'', None, Some ''Male'', Some ''Male'',
                           Some ''Female'']),
      (''Age'', NumCol [Some 21, Some 23, Some 25, Some 21, Some 23, Some 21]),
      (''CAEC'', ObjCol [Some ''Sometimes'', Some ''Always'', Some ''no'', Some ''Sometimes'',
                         Some ''no'', Some ''Frequently'']),
      (''CALC'', ObjCol [Some ''no'', Some ''Frequently'', Some ''no'', Some ''no'',
                         Some ''no'', Some ''Sometimes'']),
      (''MTRANS'', ObjCol [Some ''Walking'', Some ''Public_Transportation'', Some ''Walking'',
                           Some ''Walking'', Some ''Automobile'', Some ''Walking'']),
      (''NObeyesdad'', ObjCol [Some ''Normal_Weight'', Some ''Obesity_Type_I'',
                               Some ''Normal_Weight'', Some ''Normal_Weight'',
                               Some ''Insufficient_Weight'', Some ''Overweight_Level_II''])]"

definition example_files :: csv_files where
  "example_files = [''./data/ObesityDataSet.csv'' \<mapsto> example_raw]"

text \<open>A cleaned table and what the transformer makes of it.\<close>

definition example_clean :: frame where
  "example_clean =
     [(''Gender'', ObjCol [Some ''Male'', Some ''Female'', Some ''Male'', Some ''Female'']),
      (''Age'', NumCol [Some 21, Some 23, Some 23, Some 21]),
      (''CAEC'', ObjCol [Some ''Sometimes'', Some ''Always'', Some ''no'', Some ''Frequently'']),
      (''CALC'', ObjCol [Some ''no'', Some ''Frequently'', Some ''no'', Some ''Sometimes'']),
      (''MTRANS'', ObjCol [Some ''Walking'', Some ''Public_Transportation'', Some ''Automobile'',
                           Some ''Walking'']),
      (''NObeyesdad'', ObjCol [Some ''Normal_Weight'', Some ''Obesity_Type_I'',
                               Some ''Insufficient_Weight'', Some ''Overweight_Level_II''])]"

definition example_out :: frame where
  "example_out =
     [(''Gender'', NumCol [Some 0, Some 1, Some 0, Some 1]),
      (''Age'', NumCol [Some (-1), Some 1, Some 1, Some (-1)]),
      (''Obesity_Binary'', NumCol [Some 0, Some 1, Some 0, Some 1]),
      (''MTRANS_Binary'', NumCol [Some 0, Some 1, Some 0, Some 0]),
      (''CAEC_binary'', NumCol [Some 0, Some 1, Some 0, Some 1]),
      (''CALC_binary'', NumCol [Some 0, Some 1, Some 0, Some 0])]"

text \<open>The example after lines 26 and 27, and its feature columns (line 30).\<close>

definition example_target :: frame where
  "example_target =
     [(''Gender'', ObjCol [Some ''Male'', Some ''Female'', Some ''Male'', Some ''Female'']),
      (''Age'', NumCol [Some 21, Some 23, Some 23, Some 21]),
      (''CAEC'', ObjCol [Some ''Sometimes'', Some ''Always'', Some ''no'', Some ''Frequently'']),
      (''CALC'', ObjCol [Some ''no'', Some ''Frequently'', Some ''no'', Some ''Sometimes'']),
      (''MTRANS'', ObjCol [Some ''Walking'', Some ''Public_Transportation'', Some ''Automobile'',
                           Some ''Walking'']),
      (''Obesity_Binary'', NumCol [Some 0, Some 1, Some 0, Some 1])]"

definition example_features :: frame where
  "example_features =
     [(''Gender'', ObjCol [Some ''Male'', Some ''Female'', Some ''Male'', Some ''Female'']),
      (''Age'', NumCol [Some 21, Some 23, Some 23, Some 21]),
      (''CAEC'', ObjCol [Some ''Sometimes'', Some ''Always'', Some ''no'', Some ''Frequently'']),
      (''CALC'', ObjCol [Some ''no'', Some ''Frequently'', Some ''no'', Some ''Sometimes'']),
      (''MTRANS'', ObjCol [Some ''Walking'', Some ''Public_Transportation'', Some ''Automobile'',
                           Some ''Walking''])]"

text \<open>A cleaned table whose \<open>Gender\<close> column holds one value only.\<close>

definition example_one_gender :: frame where
  "example_one_gender =
     [(''Gender'', ObjCol [Some ''Male'', Some ''Male'', Some ''Male'', Some ''Male'']),
      (''Age'', NumCol [Some 21, Some 23, Some 23, Some 21]),
      (''CAEC'', ObjCol [Some ''Sometimes'', Some ''Always'', Some ''no'', Some ''Frequently'']),
      (''CALC'', ObjCol [Some ''no'', Some ''Frequently'', Some ''no'', Some ''Sometimes'']),
      (''MTRANS'', ObjCol [Some ''Walking'', Some ''Public_Transportation'', Some ''Automobile'',
                           Some ''Walking'']),
      (''NObeyesdad'', ObjCol [Some ''Normal_Weight'', Some ''Obesity_Type_I'',
                               Some ''Insufficient_Weight'', Some ''Overweight_Level_II''])]"

definition example_one_gender_out :: frame where
  "example_one_gender_out =
     [(''Gender'', ObjCol [Some ''Male'', Some ''Male'', Some ''Male'', Some ''Male'']),
      (''Age'', NumCol [Some (-1), Some 1, Some 1, Some (-1)]),
      (''Obesity_Binary'', NumCol [Some 0, Some 1, Some 0, Some 1]),
      (''MTRANS_Binary'', NumCol [Some 0, Some 1, Some 0, Some 0]),
      (''CAEC_binary'', NumCol [Some 0, Some 1, Some 0, Some 1]),
      (''CALC_binary'', NumCol [Some 0, Some 1, Some 0, Some 0])]"

text \<open>A cleaned table whose \<open>CAEC\<close> column holds two values, \<open>Always\<close> one of them.\<close>

definition example_two_caec :: frame where
  "example_two_caec =
     [(''Gender'', ObjCol [Some ''Male'', Some ''Female'', Some ''Male'', Some ''Female'']),
      (''Age'', NumCol [Some 21, Some 23, Some 23, Some 21]),
      (''CAEC'', ObjCol [Some ''Sometimes'', Some ''Always'', Some ''Always'', Some ''Sometimes'']),
      (''CALC'', ObjCol [Some ''no'', Some ''Frequently'', Some ''no'', Some ''Sometimes'']),
      (''MTRANS'', ObjCol [Some ''Walking'', Some ''Public_Transportation'', Some ''Automobile'',
                           Some ''Walking'']),
      (''NObeyesdad'', ObjCol [Some ''Normal_Weight'', Some ''Obesity_Type_I'',
                               Some ''Insufficient_Weight'', Some ''Overweight_Level_II''])]"

definition example_two_caec_out :: frame where
  "example_two_caec_out =
     [(''Gender'', NumCol [Some 0, Some 1, Some 0, Some 1]),
      (''Age'', NumCol [Some (-1), Some 1, Some 1, Some (-1)]),
      (''Obesity_Binary'', NumCol [Some 0, Some 1, Some 0, Some 1]),
      (''MTRANS_Binary'', NumCol [Some 0, Some 1, Some 0, Some 0]),
      (''CAEC_binary'', NumCol [Some 0, Some 0, Some 0, Some 0]),
      (''CALC_binary'', NumCol [Some 0, Some 1, Some 0, Some 0])]"

text \<open>A table of two runs with the files and the store that \<open>generate_report\<close> reads, and
  libraries that raise nothing; then libraries whose training raises.\<close>

definition example_runs :: "run_record list" where
  "example_runs =
     [\<lparr>RunID = ''run1'', Model = ''Logistic Regression (C=1.0)'',
       accuracy = 91234 / 100000, precision = 9 / 10, recall = 9 / 10, f1_score = 88 / 100,
       confusion_matrix_path = ''confusion_matrix_logistic_regression_(c=1.0).png'',
       classification_report_path = ''classification_report_logistic_regression_(c=1.0).txt''\<rparr>,
      \<lparr>RunID = ''run2'', Model = ''SVM (Linear Kernel)'',
       accuracy = 9 / 10, precision = 95 / 100, recall = 95 / 100, f1_score = 95 / 100,
       confusion_matrix_path = ''confusion_matrix_svm_(linear_kernel).png'',
       classification_report_path = ''classification_report_svm_(linear_kernel).txt''\<rparr>]"

definition example_runs_rounded :: "run_record list" where
  "example_runs_rounded =
     [\<lparr>RunID = ''run1'', Model = ''Logistic Regression (C=1.0)'',
       accuracy = 9123 / 10000, precision = 9 / 10, recall = 9 / 10, f1_score = 88 / 100,
       confusion_matrix_path = ''confusion_matrix_logistic_regression_(c=1.0).png'',
       classification_report_path = ''classification_report_logistic_regression_(c=1.0).txt''\<rparr>,
      \<lparr>RunID = ''run2'', Model = ''SVM (Linear Kernel)'',
       accuracy = 9 / 10, precision = 95 / 100, recall = 95 / 100, f1_score = 95 / 100,
       confusion_matrix_path = ''confusion_matrix_svm_(linear_kernel).png'',
       classification_report_path = ''classification_report_svm_(linear_kernel).txt''\<rparr>]"

definition example_run :: "string \<Rightarrow> mlflow_run" where
  "example_run name =
     \<lparr>run_name = name @ ''_20240101_120000'', params = [(''model'', name)],
      metrics = Map.empty, artifacts = [], status = ''FINISHED'', start_time = 0,
      end_time = Some 2500\<rparr>"

definition example_report_world :: world where
  "example_report_world =
     \<lparr>files = [''mlflow_output/classification_report_logistic_regression_(c=1.0).txt'' \<mapsto> Text ''report one'',
               ''mlflow_output/classification_report_svm_(linear_kernel).txt'' \<mapsto> Text ''report two'',
               ''report_template.html'' \<mapsto> Text ''<html>{{ experiment_name }}</html>''],
      mlruns = [''run1'' \<mapsto> example_run ''Logistic Regression (C=1.0)'',
                ''run2'' \<mapsto> example_run ''SVM (Linear Kernel)''],
      connected = [], stdout = [], frames = [0 \<mapsto> example_runs], next_frame = 1\<rparr>"

definition example_env :: env where
  "example_env =
     \<lparr>fit_and_score = (\<lambda>m. Inr \<lparr>ev_accuracy = 9 / 10, ev_precision = 9 / 10, ev_recall = 9 / 10,
                                     ev_f1 = 9 / 10, ev_confusion = [[3, 1], [0, 2]],
                                     ev_report = ''report'', ev_params = [(''random_state'', ''42'')]\<rparr>),
      new_run_id = (\<lambda>store. if store ''run1'' = None then ''run1''
                      else if store ''run2'' = None then ''run2''
                      else if store ''run3'' = None then ''run3''
                      else if store ''run4'' = None then ''run4'' else ''run5''),
      run_times = (\<lambda>run_id. (0, 2500)),
      log_model = (\<lambda>m name. None),
      strftime = (\<lambda>fmt. ''20240101_120000''),
      template_error = (\<lambda>t. None),
      render_error = (\<lambda>t c. None)\<rparr>"



section \<open>Columns of a table after an update\<close>

lemma bindE_Inr_iff: "bindE m f = Inr y \<longleftrightarrow> (\<exists>a. m = Inr a \<and> f a = Inr y)"
  by (cases m) (simp_all add: bindE_def)

lemma getitem_Inr_iff: "getitem df n = Inr c \<longleftrightarrow> map_of df n = Some c"
  by (simp add: getitem_def split: option.splits)

lemma map_of_setitem: "map_of (setitem df n c) = (map_of df)(n \<mapsto> c)"
  by (induction df n c rule: setitem.induct) auto

lemma columns_setitem: "set (columns (setitem df n c)) = insert n (set (columns df))"
  by (induction df n c rule: setitem.induct) (auto simp: columns_def)

lemma columns_eq_dom: "set (columns df) = dom (map_of df)"
  by (simp add: columns_def dom_map_of_conv_image_fst)

lemma map_of_filter_names:
  "map_of (filter (\<lambda>(n, c). n \<notin> set names) df) m = (if m \<in> set names then None else map_of df m)"
  by (induction df) auto

lemma drop_columns_Inr:
  "drop_columns df names = Inr df' \<Longrightarrow>
   map_of df' = (\<lambda>m. if m \<in> set names then None else map_of df m) \<and> set names \<subseteq> dom (map_of df)"
  by (auto simp: drop_columns_def columns_eq_dom map_of_filter_names filter_empty_conv fun_eq_iff split: list.splits)

lemma binarize_Inr:
  "binarize cols df = Inr df' \<Longrightarrow>
   (\<forall>m. m \<notin> set cols \<longrightarrow> map_of df' m = map_of df m) \<and> dom (map_of df') = dom (map_of df)"
proof (induction cols df arbitrary: df' rule: binarize.induct)
  case (1 df)
  then show ?case by simp
next
  case (2 col cols df)
  from "2.prems" obtain c where c: "getitem df col = Inr c"
    by (auto simp: bindE_Inr_iff)
  then have mc: "map_of df col = Some c" by (simp add: getitem_Inr_iff)
  show ?case
  proof (cases "nunique c = 2")
    case True
    let ?d = "setitem df col (series_map [(unique c ! 0, 0), (unique c ! 1, 1)] c)"
    from "2.prems" c True have b: "binarize cols ?d = Inr df'" by (simp add: bindE_def)
    from "2.IH"(1) [of c df', OF True b] mc show ?thesis
      by (auto simp: map_of_setitem split: if_splits)
  next
    case False
    from "2.prems" c False have "binarize cols df = Inr df'" by (simp add: bindE_def)
    from "2.IH"(2) [of c df', OF False this] show ?thesis by auto
  qed
qed

lemma add_indicators_Inr:
  "add_indicators df = Inr df' \<Longrightarrow>
   \<exists>m e a. map_of df ''MTRANS'' = Some m \<and> map_of df ''CAEC'' = Some e \<and>
     map_of df ''CALC'' = Some a \<and>
     map_of df' = (map_of df)(''MTRANS_Binary'' \<mapsto> series_apply is_public_transportation m,
                             ''CAEC_binary'' \<mapsto> series_apply is_frequent e,
                             ''CALC_binary'' \<mapsto> series_apply is_frequent a)"
  by (auto simp: add_indicators_def bindE_Inr_iff Let_def getitem_Inr_iff map_of_setitem)

lemma map_of_assign_columns:
  "m \<notin> fst ` set ncs \<Longrightarrow> map_of (assign_columns df ncs) m = map_of df m"
  by (induction df ncs rule: assign_columns.induct) (auto simp: map_of_setitem)

lemma dom_assign_columns:
  "dom (map_of (assign_columns df ncs)) = dom (map_of df) \<union> fst ` set ncs"
  by (induction df ncs rule: assign_columns.induct) (auto simp: map_of_setitem)

lemma select_columns_Inr:
  "select_columns df names = Inr sel \<Longrightarrow> set names \<subseteq> dom (map_of df)"
  by (auto simp: select_columns_def columns_eq_dom filter_empty_conv split: list.splits)

lemma scale_numeric_Inr:
  assumes "scale_numeric sc names df = Inr out"
  shows "(\<forall>m. m \<notin> set names \<longrightarrow> map_of out m = map_of df m) \<and> dom (map_of out) = dom (map_of df)
         \<and> nrows df \<noteq> 0 \<and> names \<noteq> []"
proof -
  from assms obtain sel X Y where sel: "select_columns df names = Inr sel"
    and ne: "names \<noteq> []" "nrows df \<noteq> 0"
    and Y: "length Y = length names"
    and out: "out = assign_columns df (zip names (map NumCol Y))"
    by (auto simp: scale_numeric_def bindE_Inr_iff split: if_splits)
  have fst: "fst ` set (zip names (map NumCol Y)) = set names"
    using Y by (metis length_map map_fst_zip set_map)
  show ?thesis
    using ne select_columns_Inr [OF sel] by (auto simp: out map_of_assign_columns dom_assign_columns fst)
qed

lemma set_first_seen [simp]: "set (first_seen xs) = set xs"
  by (induction xs rule: first_seen.induct) auto

lemma distinct_first_seen [simp]: "distinct (first_seen xs)"
  by (induction xs rule: first_seen.induct) auto

lemma first_seen_hd: "xs \<noteq> [] \<Longrightarrow> first_seen xs ! 0 = hd xs"
  by (cases xs) simp_all

lemma two_values:
  assumes "nunique c = 2" "NaN \<notin> set (cells c)"
  shows "cells c \<noteq> [] \<and> unique c ! 0 = hd (cells c) \<and> unique c ! 0 \<noteq> unique c ! 1 \<and>
         set (cells c) = {unique c ! 0, unique c ! 1}"
proof -
  have "filter (\<lambda>x. x \<noteq> NaN) (unique c) = unique c"
    using assms(2) by (auto simp: unique_def filter_id_conv)
  with assms(1) have len: "length (unique c) = 2" by (simp add: nunique_def)
  then obtain a b where ab: "unique c = [a, b]"
    by (cases "unique c"; cases "tl (unique c)") auto
  have d: "distinct (unique c)" and s: "set (unique c) = set (cells c)"
    by (simp_all add: unique_def)
  from len have ne: "cells c \<noteq> []" by (auto simp: unique_def)
  from ne have "unique c ! 0 = hd (cells c)" by (simp add: unique_def first_seen_hd)
  with ab d s ne show ?thesis by auto
qed

lemma cells_series_map: "cells (series_map d c) = map (\<lambda>x. case map_of d x of None \<Rightarrow> NaN | Some r \<Rightarrow> Num r) (cells c)"
  by (simp add: series_map_def)

lemma binarized_cells:
  assumes "nunique c = 2" "NaN \<notin> set (cells c)"
  shows "cells (series_map [(unique c ! 0, 0), (unique c ! 1, 1)] c) =
         map (\<lambda>x. Num (if x = hd (cells c) then 0 else 1)) (cells c)"
proof -
  from two_values [OF assms] have h: "unique c ! 0 = hd (cells c)"
    and s: "set (cells c) = {unique c ! 0, unique c ! 1}" by simp_all
  show ?thesis
    unfolding cells_series_map using s h by (intro map_cong) auto
qed

lemma columns_setitem_existing: "n \<in> set (columns df) \<Longrightarrow> columns (setitem df n c) = columns df"
  by (induction df n c rule: setitem.induct) (auto simp: columns_def)

lemma columns_setitem_new: "n \<notin> set (columns df) \<Longrightarrow> columns (setitem df n c) = columns df @ [n]"
  by (induction df n c rule: setitem.induct) (auto simp: columns_def)

lemma distinct_setitem: "distinct (columns df) \<Longrightarrow> distinct (columns (setitem df n c))"
  by (cases "n \<in> set (columns df)") (simp_all add: columns_setitem_existing columns_setitem_new)

lemma drop_columns_columns:
  "drop_columns df names = Inr df' \<Longrightarrow> columns df' = filter (\<lambda>n. n \<notin> set names) (columns df)"
  by (auto simp: drop_columns_def columns_def filter_map comp_def case_prod_unfold split: list.splits)

lemma binarize_columns: "binarize cols df = Inr df' \<Longrightarrow> columns df' = columns df"
proof (induction cols df arbitrary: df' rule: binarize.induct)
  case (1 df)
  then show ?case by simp
next
  case (2 col cols df)
  from "2.prems" obtain c where c: "getitem df col = Inr c"
    by (auto simp: bindE_Inr_iff)
  then have mc: "col \<in> set (columns df)" by (auto simp: getitem_Inr_iff columns_eq_dom)
  show ?case
  proof (cases "nunique c = 2")
    case True
    let ?d = "setitem df col (series_map [(unique c ! 0, 0), (unique c ! 1, 1)] c)"
    from "2.prems" c True have b: "binarize cols ?d = Inr df'" by (simp add: bindE_def)
    from "2.IH"(1) [of c df', OF True b] mc show ?thesis
      by (simp add: columns_setitem_existing)
  next
    case False
    from "2.prems" c False have "binarize cols df = Inr df'" by (simp add: bindE_def)
    from "2.IH"(2) [of c df', OF False this] show ?thesis .
  qed
qed

lemma binarize_effect:
  "binarize cols df = Inr df' \<Longrightarrow> distinct cols \<Longrightarrow> col \<in> set cols \<Longrightarrow> map_of df col = Some c \<Longrightarrow>
   map_of df' col =
     Some (if nunique c = 2 then series_map [(unique c ! 0, 0), (unique c ! 1, 1)] c else c)"
proof (induction cols df arbitrary: df' rule: binarize.induct)
  case (1 df)
  then show ?case by simp
next
  case (2 x cols df)
  from "2.prems"(1) obtain cx where cx: "getitem df x = Inr cx"
    by (auto simp: bindE_Inr_iff)
  then have mx: "map_of df x = Some cx" by (simp add: getitem_Inr_iff)
  let ?d = "if nunique cx = 2 then setitem df x (series_map [(unique cx ! 0, 0), (unique cx ! 1, 1)] cx) else df"
  from "2.prems"(1) cx have b: "binarize cols ?d = Inr df'"
    by (cases "nunique cx = 2") (simp_all add: bindE_def)
  show ?case
  proof (cases "col = x")
    case True
    with "2.prems"(2) have "col \<notin> set cols" by simp
    with binarize_Inr [OF b] have "map_of df' col = map_of ?d col" by simp
    with True mx "2.prems"(4) show ?thesis by (simp add: map_of_setitem)
  next
    case False
    with "2.prems" have in_cols: "col \<in> set cols" and d: "distinct cols" by simp_all
    from False "2.prems"(4) have md: "map_of ?d col = Some c" by (simp add: map_of_setitem)
    show ?thesis
    proof (cases "nunique cx = 2")
      case True
      with b have b': "binarize cols (setitem df x (series_map [(unique cx ! 0, 0), (unique cx ! 1, 1)] cx)) = Inr df'" by simp
      from md True have md': "map_of (setitem df x (series_map [(unique cx ! 0, 0), (unique cx ! 1, 1)] cx)) col = Some c" by simp
      from "2.IH"(1) [of cx df', OF True b' d in_cols md'] show ?thesis .
    next
      case F: False
      with b have b': "binarize cols df = Inr df'" by simp
      from "2.IH"(2) [of cx df', OF F b' d in_cols "2.prems"(4)] show ?thesis .
    qed
  qed
qed

lemma binarize_succeeds:
  "set cols \<subseteq> dom (map_of df) \<Longrightarrow> \<exists>df'. binarize cols df = Inr df'"
proof (induction cols df rule: binarize.induct)
  case (1 df)
  then show ?case by simp
next
  case (2 x cols df)
  then obtain cx where mx: "map_of df x = Some cx" by auto
  then have g: "getitem df x = Inr cx" by (simp add: getitem_Inr_iff)
  show ?case
  proof (cases "nunique cx = 2")
    case True
    have "set cols \<subseteq> dom (map_of (setitem df x (series_map [(unique cx ! 0, 0), (unique cx ! 1, 1)] cx)))"
      using "2.prems" by (auto simp: map_of_setitem)
    from "2.IH"(1) [of cx, OF True this] g True show ?thesis by (simp add: bindE_def)
  next
    case False
    have "set cols \<subseteq> dom (map_of df)" using "2.prems" by simp
    from "2.IH"(2) [of cx, OF False this] g False show ?thesis by (simp add: bindE_def)
  qed
qed

lemma cat_columns_subset: "set (cat_columns f) \<subseteq> dom (map_of f)"
  by (auto simp: cat_columns_def dom_map_of_conv_image_fst)

lemma num_columns_subset: "set (num_columns f) \<subseteq> dom (map_of f)"
  by (auto simp: num_columns_def dom_map_of_conv_image_fst)

lemma cells_series_apply: "cells (series_apply f c) = map (\<lambda>x. Num (f x)) (cells c)"
  by (simp add: series_apply_def comp_def)

lemma add_target_Inr:
  "add_target df = Inr df1 \<Longrightarrow>
   \<exists>c. map_of df ''NObeyesdad'' = Some c \<and>
     map_of df1 = ((map_of df)(''Obesity_Binary'' \<mapsto> series_apply is_obese c))(''NObeyesdad'' := None)"
  by (auto simp: add_target_def bindE_Inr_iff getitem_Inr_iff map_of_setitem fun_eq_iff
           dest!: drop_columns_Inr)

text \<open>The intermediate tables of a run of transform that returns.\<close>

lemma transform_Inr:
  assumes "transform sc df = Inr out"
  obtains df1 features df2 df3 df4 where
    "add_target df = Inr df1"
    "drop_columns df1 [''Obesity_Binary''] = Inr features"
    "binarize (cat_columns features) df1 = Inr df2"
    "add_indicators df2 = Inr df3"
    "drop_columns df3 [''MTRANS'', ''CALC'', ''CAEC''] = Inr df4"
    "scale_numeric sc (num_columns features) df4 = Inr out"
  using assms unfolding transform_def bindE_Inr_iff by blast

text \<open>
  Claim C1. In the table that \<open>main\<close> saves, the cell of \<open>Obesity_Binary\<close> is 1 in
  the rows whose \<open>NObeyesdad\<close> label in the cleaned table is one of the five obesity and
  overweight labels and 0 in every other row, and \<open>NObeyesdad\<close> is no column any more.
\<close>

theorem obesity_binary_target:
  assumes "transform fit_transform df = Inr out"
  shows "\<exists>label target. getitem df ''NObeyesdad'' = Inr label \<and>
           getitem out ''Obesity_Binary'' = Inr target \<and>
           cells target =
             map (\<lambda>x. Num (if x \<in> {Str ''Obesity_Type_I'', Str ''Obesity_Type_II'',
                                     Str ''Obesity_Type_III'', Str ''Overweight_Level_I'',
                                     Str ''Overweight_Level_II''} then 1 else 0)) (cells label) \<and>
           ''NObeyesdad'' \<notin> set (columns out)"
proof -
  from assms obtain df1 features df2 df3 df4 where
    s1: "add_target df = Inr df1" and
    s2: "drop_columns df1 [''Obesity_Binary''] = Inr features" and
    s3: "binarize (cat_columns features) df1 = Inr df2" and
    s4: "add_indicators df2 = Inr df3" and
    s5: "drop_columns df3 [''MTRANS'', ''CALC'', ''CAEC''] = Inr df4" and
    s6: "scale_numeric fit_transform (num_columns features) df4 = Inr out"
    by (rule transform_Inr)
  from add_target_Inr [OF s1] obtain c where
    c: "map_of df ''NObeyesdad'' = Some c" and
    m1: "map_of df1 = ((map_of df)(''Obesity_Binary'' \<mapsto> series_apply is_obese c))(''NObeyesdad'' := None)"
    by blast
  have f: "map_of features ''Obesity_Binary'' = None"
    using drop_columns_Inr [OF s2] by simp
  have nc: "''Obesity_Binary'' \<notin> set (cat_columns features)"
    using cat_columns_subset [of features] f by auto
  have nn: "''Obesity_Binary'' \<notin> set (num_columns features)"
    using num_columns_subset [of features] f by auto
  have t1: "map_of df1 ''Obesity_Binary'' = Some (series_apply is_obese c)"
    by (simp add: m1)
  have t2: "map_of df2 ''Obesity_Binary'' = Some (series_apply is_obese c)"
    using binarize_Inr [OF s3] nc t1 by simp
  have l2: "map_of df2 ''NObeyesdad'' = None"
    using binarize_Inr [OF s3] m1 by (metis domIff fun_upd_same)
  from add_indicators_Inr [OF s4] have
    t3: "map_of df3 ''Obesity_Binary'' = Some (series_apply is_obese c)" and
    l3: "map_of df3 ''NObeyesdad'' = None"
    using t2 l2 by auto
  have t4: "map_of df4 ''Obesity_Binary'' = Some (series_apply is_obese c)"
    and l4: "map_of df4 ''NObeyesdad'' = None"
    using drop_columns_Inr [OF s5] t3 l3 by auto
  have t5: "map_of out ''Obesity_Binary'' = Some (series_apply is_obese c)"
    using scale_numeric_Inr [OF s6] nn t4 by simp
  have l5: "map_of out ''NObeyesdad'' = None"
    using scale_numeric_Inr [OF s6] l4 by (metis domIff)
  have "cells (series_apply is_obese c) =
     map (\<lambda>x. Num (if x \<in> {Str ''Obesity_Type_I'', Str ''Obesity_Type_II'',
                           Str ''Obesity_Type_III'', Str ''Overweight_Level_I'',
                           Str ''Overweight_Level_II''} then 1 else 0)) (cells c)"
    by (simp add: cells_series_apply is_obese_def obesity_labels_def)
  with c t5 l5 show ?thesis
    by (simp add: getitem_Inr_iff columns_eq_dom domIff)
qed

lemma add_target_columns:
  "add_target df = Inr df1 \<Longrightarrow> distinct (columns df) \<Longrightarrow> distinct (columns df1)"
  by (auto simp: add_target_def bindE_Inr_iff distinct_setitem dest!: drop_columns_columns)

lemma distinct_cat_columns: "distinct (columns f) \<Longrightarrow> distinct (cat_columns f)"
  by (simp add: cat_columns_def columns_def distinct_map_filter)

lemma distinct_num_columns: "distinct (columns f) \<Longrightarrow> distinct (num_columns f)"
  by (simp add: num_columns_def columns_def distinct_map_filter)

lemma in_cat_columns:
  "distinct (columns f) \<Longrightarrow> n \<in> set (cat_columns f) \<longleftrightarrow> (\<exists>c. map_of f n = Some c \<and> is_object c)"
  by (force simp: cat_columns_def columns_def)

lemma in_num_columns:
  "distinct (columns f) \<Longrightarrow> n \<in> set (num_columns f) \<longleftrightarrow> (\<exists>c. map_of f n = Some c \<and> \<not> is_object c)"
  by (force simp: num_columns_def columns_def)

text \<open>A categorical feature column through the loop of lines 41 to 43, and through the
  rest of the transformer when no later line drops or overwrites it.\<close>

lemma object_column_through:
  assumes "transform fit_transform df = Inr out"
    and "distinct (columns df)"
    and "map_of df col = Some c"
    and "is_object c"
    and "col \<noteq> ''NObeyesdad''" "col \<noteq> ''Obesity_Binary''"
  shows "\<exists>df1 features df2.
           add_target df = Inr df1 \<and> drop_columns df1 [''Obesity_Binary''] = Inr features \<and>
           col \<in> set (cat_columns features) \<and> map_of df1 col = Some c \<and>
           binarize (cat_columns features) df1 = Inr df2 \<and>
           map_of df2 col =
             Some (if nunique c = 2 then series_map [(unique c ! 0, 0), (unique c ! 1, 1)] c else c) \<and>
           (col \<notin> {''MTRANS'', ''CALC'', ''CAEC'', ''MTRANS_Binary'', ''CAEC_binary'', ''CALC_binary''}
              \<longrightarrow> map_of out col = map_of df2 col)"
proof -
  from assms(1) obtain df1 features df2 df3 df4 where
    s1: "add_target df = Inr df1" and
    s2: "drop_columns df1 [''Obesity_Binary''] = Inr features" and
    s3: "binarize (cat_columns features) df1 = Inr df2" and
    s4: "add_indicators df2 = Inr df3" and
    s5: "drop_columns df3 [''MTRANS'', ''CALC'', ''CAEC''] = Inr df4" and
    s6: "scale_numeric fit_transform (num_columns features) df4 = Inr out"
    by (rule transform_Inr)
  have d1: "distinct (columns df1)"
    using s1 assms(2) by (rule add_target_columns)
  have dfe: "distinct (columns features)"
    using drop_columns_columns [OF s2] d1 by simp
  from add_target_Inr [OF s1] obtain l where
    m1: "map_of df1 = ((map_of df)(''Obesity_Binary'' \<mapsto> series_apply is_obese l))(''NObeyesdad'' := None)"
    by blast
  have mf: "map_of features = (map_of df1)(''Obesity_Binary'' := None)"
    using drop_columns_Inr [OF s2] by (auto simp: fun_eq_iff)
  from assms(3,5,6) have c1: "map_of df1 col = Some c" and cf: "map_of features col = Some c"
    by (simp_all add: m1 mf)
  from cf assms(4) have cat: "col \<in> set (cat_columns features)"
    by (auto simp: in_cat_columns [OF dfe])
  let ?b = "if nunique c = 2 then series_map [(unique c ! 0, 0), (unique c ! 1, 1)] c else c"
  from binarize_effect [OF s3 distinct_cat_columns [OF dfe] cat c1]
  have c2: "map_of df2 col = Some ?b" .
  have late: "map_of out col = map_of df2 col"
    if "col \<notin> {''MTRANS'', ''CALC'', ''CAEC'', ''MTRANS_Binary'', ''CAEC_binary'', ''CALC_binary''}"
  proof -
    from add_indicators_Inr [OF s4] that have c3: "map_of df3 col = map_of df2 col"
      by auto
    have c4: "map_of df4 col = map_of df2 col"
      using drop_columns_Inr [OF s5] c3 that by auto
    have "col \<notin> set (num_columns features)"
      using cf assms(4) by (auto simp: in_num_columns [OF dfe])
    with scale_numeric_Inr [OF s6] c4 show ?thesis by simp
  qed
  from s1 s2 cat c1 s3 c2 late show ?thesis by blast
qed

text \<open>
  Claim C6. A categorical feature column that holds exactly two distinct values when the
  loop of lines 41 to 43 runs (no cell is missing after cleaning) is replaced by a
  numeric column: the value of its first cell becomes 0, the other value becomes 1. This
  is the column after the loop, and it is the column of the saved table unless a later
  line drops it (\<open>MTRANS\<close>, \<open>CALC\<close>, \<open>CAEC\<close>) or assigns to its name (the three
  indicator columns).
\<close>

theorem binarize_first_seen:
  assumes "transform fit_transform df = Inr out"
    and "distinct (columns df)"
    and "getitem df col = Inr c"
    and "is_object c"
    and "col \<noteq> ''NObeyesdad''" "col \<noteq> ''Obesity_Binary''"
    and "nunique c = 2"
    and "NaN \<notin> set (cells c)"
  shows "(\<exists>df1 features df2 b.
            add_target df = Inr df1 \<and> drop_columns df1 [''Obesity_Binary''] = Inr features \<and>
            col \<in> set (cat_columns features) \<and>
            binarize (cat_columns features) df1 = Inr df2 \<and> getitem df2 col = Inr b \<and>
            cells b = map (\<lambda>x. Num (if x = hd (cells c) then 0 else 1)) (cells c))
       \<and> (col \<notin> {''MTRANS'', ''CALC'', ''CAEC'', ''MTRANS_Binary'', ''CAEC_binary'', ''CALC_binary''}
            \<longrightarrow> (\<exists>b. getitem out col = Inr b \<and>
                   cells b = map (\<lambda>x. Num (if x = hd (cells c) then 0 else 1)) (cells c)))"
proof -
  from assms(3) have mc: "map_of df col = Some c" by (simp add: getitem_Inr_iff)
  from object_column_through [OF assms(1,2) mc assms(4,5,6)] assms(7)
  obtain df1 features df2 where
    s: "add_target df = Inr df1" "drop_columns df1 [''Obesity_Binary''] = Inr features"
      "col \<in> set (cat_columns features)" "binarize (cat_columns features) df1 = Inr df2" and
    c2: "map_of df2 col = Some (series_map [(unique c ! 0, 0), (unique c ! 1, 1)] c)" and
    late: "col \<notin> {''MTRANS'', ''CALC'', ''CAEC'', ''MTRANS_Binary'', ''CAEC_binary'', ''CALC_binary''}
              \<longrightarrow> map_of out col = map_of df2 col"
    by auto
  note cells = binarized_cells [OF assms(7,8)]
  from s c2 cells have 1: "\<exists>df1 features df2 b.
            add_target df = Inr df1 \<and> drop_columns df1 [''Obesity_Binary''] = Inr features \<and>
            col \<in> set (cat_columns features) \<and>
            binarize (cat_columns features) df1 = Inr df2 \<and> getitem df2 col = Inr b \<and>
            cells b = map (\<lambda>x. Num (if x = hd (cells c) then 0 else 1)) (cells c)"
    unfolding getitem_Inr_iff by blast
  from late c2 cells have 2: "col \<notin> {''MTRANS'', ''CALC'', ''CAEC'', ''MTRANS_Binary'', ''CAEC_binary'', ''CALC_binary''}
            \<longrightarrow> (\<exists>b. getitem out col = Inr b \<and>
                   cells b = map (\<lambda>x. Num (if x = hd (cells c) then 0 else 1)) (cells c))"
    unfolding getitem_Inr_iff by simp
  from 1 2 show ?thesis by (rule conjI)
qed

lemma object_column_kept:
  assumes "transform fit_transform df = Inr out"
    and "distinct (columns df)"
    and "getitem df col = Inr c"
    and "is_object c"
    and "nunique c \<noteq> 2"
    and "col \<notin> {''NObeyesdad'', ''Obesity_Binary'', ''MTRANS'', ''CALC'', ''CAEC'',
                 ''MTRANS_Binary'', ''CAEC_binary'', ''CALC_binary''}"
  shows "getitem out col = Inr c"
proof -
  from assms(3) have mc: "map_of df col = Some c" by (simp add: getitem_Inr_iff)
  from assms(6) have n: "col \<noteq> ''NObeyesdad''" "col \<noteq> ''Obesity_Binary''"
    "col \<notin> {''MTRANS'', ''CALC'', ''CAEC'', ''MTRANS_Binary'', ''CAEC_binary'', ''CALC_binary''}"
    by auto
  from object_column_through [OF assms(1,2) mc assms(4) n(1,2)] n(3) assms(5)
  show ?thesis by (auto simp: getitem_Inr_iff)
qed

lemma is_frequent_num [simp]: "is_frequent (Num r) = 0" "is_frequent NaN = 0"
  by (simp_all add: is_frequent_def)

lemma indicator_of_binarized:
  "cells (series_apply is_frequent (series_map d c)) = map (\<lambda>x. Num 0) (cells c)"
  by (simp add: cells_series_apply cells_series_map comp_def split: option.split)

text \<open>
  Claim C10. When \<open>CAEC\<close> (or \<open>CALC\<close>) is a string column with exactly two distinct
  values, the loop of lines 41 to 43 has turned it into numbers before line 46 (line 47)
  tests its cells against \<open>Frequently\<close> and \<open>Always\<close>, so every cell of
  \<open>CAEC_binary\<close> (\<open>CALC_binary\<close>) in the saved table is 0, whatever the strings were.
\<close>

theorem frequency_indicator_zero:
  assumes "transform fit_transform df = Inr out"
    and "distinct (columns df)"
    and "(col, ind) = (''CAEC'', ''CAEC_binary'') \<or> (col, ind) = (''CALC'', ''CALC_binary'')"
    and "getitem df col = Inr c"
    and "is_object c"
    and "nunique c = 2"
    and "ind \<notin> set (num_columns df)"
  shows "\<exists>z. getitem out ind = Inr z \<and> cells z = map (\<lambda>x. Num 0) (cells c)"
proof -
  from assms(1) obtain df1 features df2 df3 df4 where
    s1: "add_target df = Inr df1" and
    s2: "drop_columns df1 [''Obesity_Binary''] = Inr features" and
    s3: "binarize (cat_columns features) df1 = Inr df2" and
    s4: "add_indicators df2 = Inr df3" and
    s5: "drop_columns df3 [''MTRANS'', ''CALC'', ''CAEC''] = Inr df4" and
    s6: "scale_numeric fit_transform (num_columns features) df4 = Inr out"
    by (rule transform_Inr)
  have d1: "distinct (columns df1)"
    using s1 assms(2) by (rule add_target_columns)
  have dfe: "distinct (columns features)"
    using drop_columns_columns [OF s2] d1 by simp
  from add_target_Inr [OF s1] obtain l where
    m1: "map_of df1 = ((map_of df)(''Obesity_Binary'' \<mapsto> series_apply is_obese l))(''NObeyesdad'' := None)"
    by blast
  have mf: "map_of features = (map_of df1)(''Obesity_Binary'' := None)"
    using drop_columns_Inr [OF s2] by (auto simp: fun_eq_iff)
  from assms(3) have names: "col \<noteq> ''Obesity_Binary''" "col \<noteq> ''NObeyesdad''"
    "ind \<noteq> ''Obesity_Binary''" "ind \<noteq> ''NObeyesdad''" "ind \<notin> {''MTRANS'', ''CALC'', ''CAEC''}"
    by auto
  from assms(4) have mc: "map_of df col = Some c" by (simp add: getitem_Inr_iff)
  with names have c1: "map_of df1 col = Some c" and cf: "map_of features col = Some c"
    by (simp_all add: m1 mf)
  from cf assms(5) have cat: "col \<in> set (cat_columns features)"
    by (auto simp: in_cat_columns [OF dfe])
  let ?b = "series_map [(unique c ! 0, 0), (unique c ! 1, 1)] c"
  from binarize_effect [OF s3 distinct_cat_columns [OF dfe] cat c1] assms(6)
  have c2: "map_of df2 col = Some ?b" by simp
  from add_indicators_Inr [OF s4] c2 assms(3)
  have c3: "map_of df3 ind = Some (series_apply is_frequent ?b)"
    by auto
  have c4: "map_of df4 ind = Some (series_apply is_frequent ?b)"
    using drop_columns_Inr [OF s5] c3 names by auto
  have "ind \<notin> set (num_columns features)"
  proof
    assume "ind \<in> set (num_columns features)"
    then obtain z where "map_of features ind = Some z" "\<not> is_object z"
      by (auto simp: in_num_columns [OF dfe])
    with names have "map_of df ind = Some z" by (simp add: mf m1)
    with \<open>\<not> is_object z\<close> have "ind \<in> set (num_columns df)"
      by (auto simp: in_num_columns [OF assms(2)])
    with assms(7) show False by simp
  qed
  with scale_numeric_Inr [OF s6] c4 have "map_of out ind = Some (series_apply is_frequent ?b)"
    by simp
  then show ?thesis
    by (simp add: getitem_Inr_iff indicator_of_binarized)
qed

lemma columns_assign_columns:
  "fst ` set ncs \<subseteq> set (columns df) \<Longrightarrow> columns (assign_columns df ncs) = columns df"
  by (induction df ncs rule: assign_columns.induct) (auto simp: columns_setitem_existing)

lemma assign_columns_assigned:
  "n \<in> fst ` set ncs \<Longrightarrow> list_all (\<lambda>(m, c). \<not> is_object c) ncs \<Longrightarrow>
   \<exists>c. map_of (assign_columns df ncs) n = Some c \<and> \<not> is_object c"
proof (induction df ncs rule: assign_columns.induct)
  case (1 df)
  then show ?case by simp
next
  case (2 df n0 c0 rest)
  show ?case
  proof (cases "n \<in> fst ` set rest")
    case True
    with 2 show ?thesis by simp
  next
    case False
    with "2.prems" have "n = n0" "\<not> is_object c0" by auto
    with False show ?thesis by (simp add: map_of_assign_columns map_of_setitem)
  qed
qed

lemma scale_numeric_columns:
  assumes "scale_numeric sc names df = Inr out"
  shows "columns out = columns df \<and>
         (\<forall>n\<in>set names. \<exists>c. map_of out n = Some c \<and> \<not> is_object c)"
proof -
  from assms obtain sel X Y where sel: "select_columns df names = Inr sel"
    and Y: "length Y = length names"
    and out: "out = assign_columns df (zip names (map NumCol Y))"
    by (auto simp: scale_numeric_def bindE_Inr_iff split: if_splits)
  have fst: "fst ` set (zip names (map NumCol Y)) = set names"
    using Y by (metis length_map map_fst_zip set_map)
  have num: "list_all (\<lambda>(m, c). \<not> is_object c) (zip names (map NumCol Y))"
    by (auto simp: list_all_iff dest!: set_zip_rightD)
  show ?thesis
    using select_columns_Inr [OF sel] assign_columns_assigned [OF _ num, of _ df]
    by (auto simp: out fst columns_assign_columns columns_eq_dom)
qed

lemma series_apply_numeric: "cells c \<noteq> [] \<Longrightarrow> \<not> is_object (series_apply f c)"
  by (simp add: series_apply_def)

lemma length_cells_series_apply [simp]: "length (cells (series_apply f c)) = length (cells c)"
  by (simp add: cells_series_apply)

lemma length_cells_series_map [simp]: "length (cells (series_map d c)) = length (cells c)"
  by (simp add: cells_series_map)

lemma nrows_eq:
  assumes "df \<noteq> []" "\<forall>n c. map_of df n = Some c \<longrightarrow> length (cells c) = k"
  shows "nrows df = k"
proof -
  from assms(1) obtain a b rest where df: "df = (a, b) # rest" by (cases df) auto
  then have "map_of df a = Some b" by simp
  with assms(2) have "length (cells b) = k" by blast
  with df show ?thesis by (simp add: nrows_def)
qed

lemma wf_frame_lengths:
  "wf_frame df \<Longrightarrow> map_of df n = Some c \<Longrightarrow> length (cells c) = nrows df"
  by (auto simp: wf_frame_def list_all_iff dest!: map_of_SomeD)

lemma add_indicators_columns:
  "add_indicators df = Inr df' \<Longrightarrow> distinct (columns df) \<Longrightarrow> distinct (columns df')"
  by (auto simp: add_indicators_def bindE_Inr_iff Let_def distinct_setitem)

lemma series_map_numeric [simp]: "\<not> is_object (series_map d c)"
  by (simp add: series_map_def)

lemma transform_numeric_columns:
  assumes "transform fit_transform df = Inr out"
    and "wf_frame df"
    and "list_all (\<lambda>(n, c). is_object c \<longrightarrow>
           n \<in> {''NObeyesdad'', ''MTRANS'', ''CALC'', ''CAEC''} \<or> nunique c = 2) df"
  shows "list_all (\<lambda>(n, c). \<not> is_object c) out"
proof -
  from assms(1) obtain df1 features df2 df3 df4 where
    s1: "add_target df = Inr df1" and
    s2: "drop_columns df1 [''Obesity_Binary''] = Inr features" and
    s3: "binarize (cat_columns features) df1 = Inr df2" and
    s4: "add_indicators df2 = Inr df3" and
    s5: "drop_columns df3 [''MTRANS'', ''CALC'', ''CAEC''] = Inr df4" and
    s6: "scale_numeric fit_transform (num_columns features) df4 = Inr out"
    by (rule transform_Inr)
  define k where "k = nrows df"
  define cats where "cats = cat_columns features"
  from assms(2) have d0: "distinct (columns df)" by (simp add: wf_frame_def)
  have L0: "length (cells c) = k" if "map_of df n = Some c" for n c
    using wf_frame_lengths [OF assms(2) that] by (simp add: k_def)
  have H: "n \<in> {''NObeyesdad'', ''MTRANS'', ''CALC'', ''CAEC''} \<or> nunique c = 2"
    if "map_of df n = Some c" "is_object c" for n c
    using assms(3) map_of_SomeD [OF that(1)] that(2) by (auto simp: list_all_iff)
  have d1: "distinct (columns df1)"
    using s1 d0 by (rule add_target_columns)
  have dfe: "distinct (columns features)"
    using drop_columns_columns [OF s2] d1 by simp
  from add_target_Inr [OF s1] obtain l where
    l: "map_of df ''NObeyesdad'' = Some l" and
    m1: "map_of df1 = ((map_of df)(''Obesity_Binary'' \<mapsto> series_apply is_obese l))(''NObeyesdad'' := None)"
    by blast
  have mf: "map_of features = (map_of df1)(''Obesity_Binary'' := None)"
    using drop_columns_Inr [OF s2] by (auto simp: fun_eq_iff)
  have L1: "length (cells c) = k" if "map_of df1 n = Some c" for n c
    using that L0 [OF l] L0 [of n c] by (auto simp: m1 split: if_splits)
  have A2: "(n \<in> set cats \<and> nunique c1 = 2 \<and> c2 = series_map [(unique c1 ! 0, 0), (unique c1 ! 1, 1)] c1)
            \<or> (c2 = c1 \<and> (n \<in> set cats \<longrightarrow> nunique c1 \<noteq> 2))"
    if "map_of df2 n = Some c2" "map_of df1 n = Some c1" for n c1 c2
  proof (cases "n \<in> set cats")
    case True
    from binarize_effect [OF s3 distinct_cat_columns [OF dfe] True [unfolded cats_def] that(2)] that(1)
    show ?thesis using True by (auto split: if_splits)
  next
    case False
    with binarize_Inr [OF s3] that show ?thesis by (simp add: cats_def)
  qed
  have dom2: "dom (map_of df2) = dom (map_of df1)"
    using binarize_Inr [OF s3] by simp
  have L2: "length (cells c) = k" if "map_of df2 n = Some c" for n c
  proof -
    from that dom2 obtain c1 where c1: "map_of df1 n = Some c1" by blast
    from A2 [OF that c1] L1 [OF c1] show ?thesis by auto
  qed
  have d2: "distinct (columns df2)"
    using binarize_columns [OF s3] d1 by simp
  have d3: "distinct (columns df3)"
    using s4 d2 by (rule add_indicators_columns)
  have d4: "distinct (columns df4)"
    using drop_columns_columns [OF s5] d3 by simp
  from add_indicators_Inr [OF s4] obtain m e a where
    src: "map_of df2 ''MTRANS'' = Some m" "map_of df2 ''CAEC'' = Some e" "map_of df2 ''CALC'' = Some a"
    and m3: "map_of df3 = (map_of df2)(''MTRANS_Binary'' \<mapsto> series_apply is_public_transportation m,
                             ''CAEC_binary'' \<mapsto> series_apply is_frequent e,
                             ''CALC_binary'' \<mapsto> series_apply is_frequent a)"
    by blast
  have m4: "map_of df4 n = (if n \<in> {''MTRANS'', ''CALC'', ''CAEC''} then None else map_of df3 n)" for n
    using drop_columns_Inr [OF s5] by auto
  have L4: "length (cells c) = k" if "map_of df4 n = Some c" for n c
    using that L2 [of n c] L2 [OF src(1)] L2 [OF src(2)] L2 [OF src(3)]
    by (auto simp: m4 m3 split: if_splits)
  have t4: "map_of df4 ''Obesity_Binary'' = Some (series_apply is_obese l)"
  proof -
    have "''Obesity_Binary'' \<notin> set cats"
      using cat_columns_subset [of features] by (auto simp: cats_def mf)
    with binarize_Inr [OF s3] have "map_of df2 ''Obesity_Binary'' = Some (series_apply is_obese l)"
      by (simp add: cats_def m1)
    then show ?thesis by (simp add: m4 m3)
  qed
  then have "df4 \<noteq> []" by auto
  from nrows_eq [OF this, of k] L4 have "nrows df4 = k" by blast
  with scale_numeric_Inr [OF s6] have k: "k \<noteq> 0" by simp
  have dout: "distinct (columns out)"
    using scale_numeric_columns [OF s6] d4 by simp
  have "\<not> is_object c" if "(n, c) \<in> set out" for n c
  proof -
    from that dout have mo: "map_of out n = Some c" by (simp add: columns_def)
    show ?thesis
    proof (cases "n \<in> set (num_columns features)")
      case True
      with scale_numeric_columns [OF s6] mo show ?thesis by auto
    next
      case False
      with scale_numeric_Inr [OF s6] mo have c4: "map_of df4 n = Some c" by simp
      then have nd: "n \<notin> {''MTRANS'', ''CALC'', ''CAEC''}" and c3: "map_of df3 n = Some c"
        by (auto simp: m4 split: if_splits)
      show ?thesis
      proof (cases "n \<in> {''MTRANS_Binary'', ''CAEC_binary'', ''CALC_binary''}")
        case True
        with c3 obtain f x where "c = series_apply f x" "length (cells x) = k"
          using L2 [OF src(1)] L2 [OF src(2)] L2 [OF src(3)]
          by (auto simp: m3 split: if_splits)
        with k show ?thesis by (auto simp: series_apply_def)
      next
        case F: False
        with c3 have c2: "map_of df2 n = Some c" by (simp add: m3)
        with dom2 obtain c1 where c1: "map_of df1 n = Some c1" by blast
        from A2 [OF c2 c1] show ?thesis
        proof
          assume "n \<in> set cats \<and> nunique c1 = 2 \<and> c = series_map [(unique c1 ! 0, 0), (unique c1 ! 1, 1)] c1"
          then show ?thesis by simp
        next
          assume keep: "c = c1 \<and> (n \<in> set cats \<longrightarrow> nunique c1 \<noteq> 2)"
          show ?thesis
          proof (cases "n = ''Obesity_Binary''")
            case True
            with c1 have "c1 = series_apply is_obese l" by (simp add: m1)
            with keep k L0 [OF l] show ?thesis by (auto simp: series_apply_def)
          next
            case nOB: False
            from c1 have nl: "n \<noteq> ''NObeyesdad''" by (auto simp: m1)
            from c1 nOB nl have c0: "map_of df n = Some c1" by (simp add: m1)
            from c1 nOB have cf: "map_of features n = Some c1" by (simp add: mf)
            show ?thesis
            proof
              assume obj: "is_object c"
              with keep cf have "n \<in> set cats"
                by (auto simp: cats_def in_cat_columns [OF dfe])
              with keep have "nunique c1 \<noteq> 2" by simp
              with H [OF c0] obj keep nl nd show False by auto
            qed
          qed
        qed
      qed
    qed
  qed
  then show ?thesis by (auto simp: list_all_iff)
qed

text \<open>
  Claim C5, as amended. The loop of lines 41 to 43 turns a categorical column into numbers
  only when it holds exactly two distinct values. For a table that the transformer
  accepts and whose categorical columns, \<open>NObeyesdad\<close>, \<open>MTRANS\<close>, \<open>CALC\<close> and
  \<open>CAEC\<close> apart, all hold exactly two distinct values, every column of the saved table
  is numeric. A categorical column that holds one value, or three or more, is in the
  saved table as it was, as strings, unless its name is one that lines 26, 27 and 45 to
  49 drop or assign to.
\<close>

theorem transform_all_numeric:
  assumes "transform fit_transform df = Inr out"
    and "wf_frame df"
  shows "(list_all (\<lambda>(n, c). is_object c \<longrightarrow>
            n \<in> {''NObeyesdad'', ''MTRANS'', ''CALC'', ''CAEC''} \<or> nunique c = 2) df
          \<longrightarrow> list_all (\<lambda>(n, c). \<not> is_object c) out)
       \<and> (\<forall>col c. getitem df col = Inr c \<and> is_object c \<and> nunique c \<noteq> 2 \<and>
            col \<notin> {''NObeyesdad'', ''Obesity_Binary'', ''MTRANS'', ''CALC'', ''CAEC'',
                    ''MTRANS_Binary'', ''CAEC_binary'', ''CALC_binary''}
          \<longrightarrow> getitem out col = Inr c)"
proof (intro conjI impI allI)
  assume "list_all (\<lambda>(n, c). is_object c \<longrightarrow>
            n \<in> {''NObeyesdad'', ''MTRANS'', ''CALC'', ''CAEC''} \<or> nunique c = 2) df"
  with assms show "list_all (\<lambda>(n, c). \<not> is_object c) out"
    by (rule transform_numeric_columns)
next
  fix col c
  assume h: "getitem df col = Inr c \<and> is_object c \<and> nunique c \<noteq> 2 \<and>
            col \<notin> {''NObeyesdad'', ''Obesity_Binary'', ''MTRANS'', ''CALC'', ''CAEC'',
                    ''MTRANS_Binary'', ''CAEC_binary'', ''CALC_binary''}"
  from assms(2) have d: "distinct (columns df)" by (simp add: wf_frame_def)
  from h have 1: "getitem df col = Inr c" and 2: "is_object c" and 3: "nunique c \<noteq> 2"
    and 4: "col \<notin> {''NObeyesdad'', ''Obesity_Binary'', ''MTRANS'', ''CALC'', ''CAEC'',
                    ''MTRANS_Binary'', ''CAEC_binary'', ''CALC_binary''}"
    by (rule conjunct1, rule conjunct2 [THEN conjunct1],
        rule conjunct2 [THEN conjunct2, THEN conjunct1],
        rule conjunct2 [THEN conjunct2, THEN conjunct2])
  from assms(1) d 1 2 3 4 show "getitem out col = Inr c"
    by (rule object_column_kept)
qed

section \<open>Properties of clean_data\<close>

lemma cells_take_cells:
  "set idx \<subseteq> {..<length (cells c)} \<Longrightarrow>
   cells (take_cells idx c) = map (\<lambda>i. cells c ! i) idx"
  by (cases c) (auto simp: subset_iff)

lemma nrows_take_rows:
  "nrows (take_rows idx df) = (if df = [] then 0 else length idx)"
  by (cases df; cases "snd (hd df)") (auto simp: nrows_def take_rows_def split: prod.splits)

lemma row_take_rows:
  "list_all (\<lambda>(n, c). length (cells c) = nrows df) df \<Longrightarrow> set idx \<subseteq> {..<nrows df} \<Longrightarrow>
   k < length idx \<Longrightarrow> row (take_rows idx df) k = row df (idx ! k)"
  by (auto simp: row_def take_rows_def list_all_iff cells_take_cells)

lemma rows_of_take_rows:
  assumes "list_all (\<lambda>(n, c). length (cells c) = nrows df) df" "set idx \<subseteq> {..<nrows df}"
  shows "rows_of (take_rows idx df) = (if df = [] then [] else map (row df) idx)"
proof (cases "df = []")
  case True
  then show ?thesis by (simp add: rows_of_def nrows_def take_rows_def)
next
  case False
  have "map (row (take_rows idx df)) [0..<length idx] = map (\<lambda>k. row df (idx ! k)) [0..<length idx]"
    using assms by (simp add: row_take_rows)
  also have "\<dots> = map (row df) (map (\<lambda>k. idx ! k) [0..<length idx])"
    by simp
  also have "\<dots> = map (row df) idx"
    by (simp add: map_nth)
  finally show ?thesis using False by (simp add: rows_of_def nrows_take_rows)
qed

lemma length_cells_take_cells [simp]: "length (cells (take_cells idx c)) = length idx"
  by (cases c) simp_all

lemma wf_take_rows:
  "list_all (\<lambda>(n, c). length (cells c) = nrows (take_rows idx df)) (take_rows idx df)"
proof (cases "df = []")
  case True
  then show ?thesis by (simp add: take_rows_def)
next
  case False
  then have "nrows (take_rows idx df) = length idx" by (simp add: nrows_take_rows)
  then show ?thesis by (auto simp: list_all_iff take_rows_def)
qed

lemma first_occurrence_distinct:
  "distinct (map f (filter (\<lambda>i. f i \<notin> set (map f [0..<i])) [0..<n]))"
proof (induction n)
  case 0
  then show ?case by simp
next
  case (Suc n)
  have "set (map f (filter (\<lambda>i. f i \<notin> set (map f [0..<i])) [0..<n])) \<subseteq> f ` {0..<n}"
    by auto
  with Suc show ?case by auto
qed


text \<open>
  Claim C2. Whatever the input table, the table returned by \<open>clean_data\<close> has no
  missing cell in any row, has no two equal rows, and has at most as many rows as the
  input. (The hypothesis is the DataFrame invariant that all columns have one length.)
\<close>

theorem clean_data_ok:
  assumes "list_all (\<lambda>(n, c). length (cells c) = nrows df) df"
  shows "list_all (\<lambda>r. NaN \<notin> set r) (rows_of (clean_data df)) \<and>
         distinct (rows_of (clean_data df)) \<and>
         nrows (clean_data df) \<le> nrows df"
proof -
  let ?keep = "filter (\<lambda>i. NaN \<notin> set (row df i)) [0..<nrows df]"
  let ?d = "dropna df"
  let ?first = "filter (\<lambda>i. row ?d i \<notin> set (map (row ?d) [0..<i])) [0..<nrows ?d]"
  have d: "rows_of ?d = (if df = [] then [] else map (row df) ?keep)"
    unfolding dropna_def using assms by (intro rows_of_take_rows) auto
  have wd: "list_all (\<lambda>(n, c). length (cells c) = nrows ?d) ?d"
    unfolding dropna_def by (rule wf_take_rows)
  have c: "rows_of (clean_data df) = (if ?d = [] then [] else map (row ?d) ?first)"
    unfolding clean_data_def drop_duplicates_def using wd by (intro rows_of_take_rows) auto
  have sub: "set (rows_of (clean_data df)) \<subseteq> set (rows_of ?d)"
    unfolding c by (auto simp: rows_of_def)
  have "list_all (\<lambda>r. NaN \<notin> set r) (rows_of ?d)"
    unfolding d by (simp add: list_all_iff)
  with sub have 1: "list_all (\<lambda>r. NaN \<notin> set r) (rows_of (clean_data df))"
    by (auto simp: list_all_iff)
  have 2: "distinct (rows_of (clean_data df))"
    unfolding c using first_occurrence_distinct [of "row ?d" "nrows ?d"] by simp
  have "nrows (clean_data df) \<le> nrows ?d"
    by (simp add: clean_data_def drop_duplicates_def nrows_take_rows le_trans [OF length_filter_le])
  moreover have "nrows ?d \<le> nrows df"
    by (simp add: dropna_def nrows_take_rows le_trans [OF length_filter_le])
  ultimately show ?thesis using 1 2 by simp
qed


theorem clean_data_ok_witness:
  "list_all (\<lambda>(n, c). length (cells c) = nrows example_raw) example_raw \<and>
   nrows example_raw = 6 \<and>
   nrows (clean_data example_raw) = 4 \<and>
   list_all (\<lambda>r. NaN \<notin> set r) (rows_of (clean_data example_raw)) \<and>
   distinct (rows_of (clean_data example_raw)) \<and>
   nrows (clean_data example_raw) \<le> nrows example_raw"
proof -
  have h: "list_all (\<lambda>(n, c). length (cells c) = nrows example_raw) example_raw"
    by (simp add: example_raw_def nrows_def)
  have n: "nrows example_raw = 6"
    by (simp add: example_raw_def nrows_def)
  have m: "nrows (clean_data example_raw) = 4"
    by code_simp
  show ?thesis
    using clean_data_ok [OF h] h n m by simp
qed

section \<open>The transformer on the example table\<close>

lemma standard_scale_example:
  "standard_scale [Some 21, Some 23, Some 23, Some 21] = [Some (-1), Some 1, Some 1, Some (-1)]"
  by (simp add: standard_scale_def mean_def variance_def Let_def)

lemmas transform_defs =
  transform_def add_target_def bindE_def getitem_def drop_columns_def columns_def
  series_apply_def is_obese_def obesity_labels_def cat_columns_def num_columns_def nunique_def
  unique_def series_map_def add_indicators_def is_public_transportation_def is_frequent_def
  scale_numeric_def select_columns_def nrows_def standard_scaler_def

lemma transform_example: "transform standard_scaler example_clean = Inr example_out"
  by (simp add: transform_defs example_clean_def example_out_def standard_scale_example)

theorem obesity_binary_target_witness:
  "transform standard_scaler example_clean = Inr example_out \<and>
   getitem example_clean ''NObeyesdad'' =
     Inr (ObjCol [Some ''Normal_Weight'', Some ''Obesity_Type_I'', Some ''Insufficient_Weight'',
                  Some ''Overweight_Level_II'']) \<and>
   getitem example_out ''Obesity_Binary'' = Inr (NumCol [Some 0, Some 1, Some 0, Some 1]) \<and>
   ''NObeyesdad'' \<notin> set (columns example_out)"
  using obesity_binary_target [OF transform_example] transform_example
  by (simp add: getitem_def example_clean_def example_out_def columns_def)

lemma transform_example_one_gender:
  "transform standard_scaler example_one_gender = Inr example_one_gender_out"
  by (simp add: transform_defs example_one_gender_def example_one_gender_out_def
      standard_scale_example)

lemma transform_example_two_caec:
  "transform standard_scaler example_two_caec = Inr example_two_caec_out"
  by (simp add: transform_defs example_two_caec_def example_two_caec_out_def
      standard_scale_example)

lemma wf_example_clean: "wf_frame example_clean"
  by (simp add: wf_frame_def example_clean_def columns_def nrows_def)

lemma wf_example_one_gender: "wf_frame example_one_gender"
  by (simp add: wf_frame_def example_one_gender_def columns_def nrows_def)

theorem transform_all_numeric_witness:
  "transform standard_scaler example_clean = Inr example_out \<and>
   wf_frame example_clean \<and>
   nunique (ObjCol [Some ''Male'', Some ''Female'', Some ''Male'', Some ''Female'']) = 2 \<and>
   list_all (\<lambda>(n, c). \<not> is_object c) example_out \<and>
   transform standard_scaler example_one_gender = Inr example_one_gender_out \<and>
   wf_frame example_one_gender \<and>
   getitem example_one_gender ''Gender'' =
     Inr (ObjCol [Some ''Male'', Some ''Male'', Some ''Male'', Some ''Male'']) \<and>
   nunique (ObjCol [Some ''Male'', Some ''Male'', Some ''Male'', Some ''Male'']) = 1 \<and>
   getitem example_one_gender_out ''Gender'' =
     Inr (ObjCol [Some ''Male'', Some ''Male'', Some ''Male'', Some ''Male''])"
proof -
  let ?one = "ObjCol [Some ''Male'', Some ''Male'', Some ''Male'', Some ''Male'']"
  have two: "nunique (ObjCol [Some ''Male'', Some ''Female'', Some ''Male'', Some ''Female'']) = 2"
    by (simp add: nunique_def unique_def)
  have h: "list_all (\<lambda>(n, c). is_object c \<longrightarrow>
           n \<in> {''NObeyesdad'', ''MTRANS'', ''CALC'', ''CAEC''} \<or> nunique c = 2) example_clean"
    by (simp add: example_clean_def two)
  have one: "nunique ?one = 1"
    by (simp add: nunique_def unique_def)
  have g: "getitem example_one_gender ''Gender'' = Inr ?one"
    by (simp add: getitem_def example_one_gender_def)
  have k: "getitem example_one_gender ''Gender'' = Inr ?one \<and> is_object ?one \<and> nunique ?one \<noteq> 2 \<and>
     ''Gender'' \<notin> {''NObeyesdad'', ''Obesity_Binary'', ''MTRANS'', ''CALC'', ''CAEC'',
                    ''MTRANS_Binary'', ''CAEC_binary'', ''CALC_binary''}"
    using g one by simp
  from transform_all_numeric [OF transform_example wf_example_clean, THEN conjunct1] h
  have 1: "list_all (\<lambda>(n, c). \<not> is_object c) example_out" by (rule mp)
  from transform_all_numeric [OF transform_example_one_gender wf_example_one_gender,
      THEN conjunct2, THEN spec, THEN spec, THEN mp, OF k]
  have 2: "getitem example_one_gender_out ''Gender'' = Inr ?one" .
  show ?thesis
    using 1 2 transform_example wf_example_clean two transform_example_one_gender
      wf_example_one_gender g one
    by simp
qed

theorem one_valued_column_stays_text:
  "transform standard_scaler example_one_gender = Inr example_one_gender_out \<and>
   getitem example_one_gender_out ''Gender'' =
     Inr (ObjCol [Some ''Male'', Some ''Male'', Some ''Male'', Some ''Male'']) \<and>
   \<not> list_all (\<lambda>(n, c). \<not> is_object c) example_one_gender_out"
  using transform_example_one_gender
  by (simp add: example_one_gender_out_def getitem_def)

theorem binarize_first_seen_witness:
  "transform standard_scaler example_clean = Inr example_out \<and>
   distinct (columns example_clean) \<and>
   getitem example_clean ''Gender'' =
     Inr (ObjCol [Some ''Male'', Some ''Female'', Some ''Male'', Some ''Female'']) \<and>
   nunique (ObjCol [Some ''Male'', Some ''Female'', Some ''Male'', Some ''Female'']) = 2 \<and>
   (\<exists>df2 b. binarize (cat_columns example_features) example_target = Inr df2 \<and>
      getitem df2 ''Gender'' = Inr b \<and> cells b = [Num 0, Num 1, Num 0, Num 1]) \<and>
   (\<exists>b. getitem example_out ''Gender'' = Inr b \<and> cells b = [Num 0, Num 1, Num 0, Num 1])"
proof -
  let ?c = "ObjCol [Some ''Male'', Some ''Female'', Some ''Male'', Some ''Female'']"
  have 1: "add_target example_clean = Inr example_target"
    by (simp add: transform_defs example_clean_def example_target_def)
  have 2: "drop_columns example_target [''Obesity_Binary''] = Inr example_features"
    by (simp add: transform_defs example_target_def example_features_def)
  have 3: "distinct (columns example_clean)"
    by (simp add: example_clean_def columns_def)
  have 4: "getitem example_clean ''Gender'' = Inr ?c"
    by (simp add: getitem_def example_clean_def)
  have 5: "is_object ?c"
    by simp
  have 6: "''Gender'' \<noteq> ''NObeyesdad''" "''Gender'' \<noteq> ''Obesity_Binary''"
    by simp_all
  have 7: "nunique ?c = 2"
    by (simp add: nunique_def unique_def)
  have 8: "NaN \<notin> set (cells ?c)"
    by simp
  have 9: "''Gender'' \<notin> {''MTRANS'', ''CALC'', ''CAEC'', ''MTRANS_Binary'', ''CAEC_binary'',
                          ''CALC_binary''}"
    by simp
  note inst = binarize_first_seen [OF transform_example 3 4 5 6 7 8]
  have c: "map (\<lambda>x. Num (if x = hd (cells ?c) then 0 else 1)) (cells ?c) =
           [Num 0, Num 1, Num 0, Num 1]"
    by simp
  from inst [THEN conjunct1] obtain df1 features df2 b where
    l: "add_target example_clean = Inr df1" "drop_columns df1 [''Obesity_Binary''] = Inr features"
      "binarize (cat_columns features) df1 = Inr df2" "getitem df2 ''Gender'' = Inr b"
      "cells b = map (\<lambda>x. Num (if x = hd (cells ?c) then 0 else 1)) (cells ?c)"
    by (elim exE conjE)
  from l(1) 1 have e1: "df1 = example_target" by simp
  from l(2) 2 e1 have e2: "features = example_features" by simp
  from l(3,4,5) have loop: "\<exists>df2 b. binarize (cat_columns example_features) example_target = Inr df2 \<and>
      getitem df2 ''Gender'' = Inr b \<and> cells b = [Num 0, Num 1, Num 0, Num 1]"
    unfolding e1 e2 c by (intro exI conjI)
  from inst [THEN conjunct2, THEN mp, OF 9]
  have saved: "\<exists>b. getitem example_out ''Gender'' = Inr b \<and> cells b = [Num 0, Num 1, Num 0, Num 1]"
    unfolding c .
  from transform_example 3 4 7 loop saved show ?thesis
    by (intro conjI)
qed

theorem frequency_indicator_zero_witness:
  "transform standard_scaler example_two_caec = Inr example_two_caec_out \<and>
   distinct (columns example_two_caec) \<and>
   getitem example_two_caec ''CAEC'' =
     Inr (ObjCol [Some ''Sometimes'', Some ''Always'', Some ''Always'', Some ''Sometimes'']) \<and>
   nunique (ObjCol [Some ''Sometimes'', Some ''Always'', Some ''Always'', Some ''Sometimes'']) = 2 \<and>
   ''CAEC_binary'' \<notin> set (num_columns example_two_caec) \<and>
   getitem example_two_caec_out ''CAEC_binary'' = Inr (NumCol [Some 0, Some 0, Some 0, Some 0])"
proof -
  let ?c = "ObjCol [Some ''Sometimes'', Some ''Always'', Some ''Always'', Some ''Sometimes'']"
  have 2: "distinct (columns example_two_caec)"
    by (simp add: example_two_caec_def columns_def)
  have 3: "(''CAEC'', ''CAEC_binary'') = (''CAEC'', ''CAEC_binary'') \<or>
           (''CAEC'', ''CAEC_binary'') = (''CALC'', ''CALC_binary'')"
    by simp
  have 4: "getitem example_two_caec ''CAEC'' = Inr ?c"
    by (simp add: getitem_def example_two_caec_def)
  have 5: "is_object ?c"
    by simp
  have 6: "nunique ?c = 2"
    by (simp add: nunique_def unique_def)
  have 7: "''CAEC_binary'' \<notin> set (num_columns example_two_caec)"
    by (simp add: num_columns_def example_two_caec_def)
  have 8: "getitem example_two_caec_out ''CAEC_binary'' = Inr (NumCol [Some 0, Some 0, Some 0, Some 0])"
    by (simp add: getitem_def example_two_caec_out_def)
  show ?thesis
    using frequency_indicator_zero [OF transform_example_two_caec 2 3 4 5 6 7]
      transform_example_two_caec 2 4 6 7 8
    by simp
qed

section \<open>Running data_preprocessing.py as a script\<close>

lemma clean_data_example: "clean_data example_raw = example_clean"
  by code_simp

text \<open>
  Claim C3. Run as a script (also by \<open>process_data\<close> of the pipeline), the file
  data_preprocessing.py reads nothing and writes nothing: \<open>./data/clean_data.csv\<close> is not
  made. The same files give the cleaned and transformed table when \<open>main\<close> is called
  with the two default paths from a module that imports it.
\<close>

theorem standalone_script_writes_nothing:
  "data_preprocessing_module standard_scaler ''__main__'' example_files = Some (Inr example_files) \<and>
   process_data standard_scaler example_files = Some (Inr example_files) \<and>
   example_files ''./data/clean_data.csv'' = None \<and>
   main standard_scaler ''data_preprocessing'' ''./data/ObesityDataSet.csv''
     ''./data/clean_data.csv'' example_files =
     Some (Inr (example_files(''./data/clean_data.csv'' \<mapsto> example_out)))"
  by (simp add: data_preprocessing_module_def process_data_def main.simps load_data_def
      example_files_def clean_data_example transform_example save_data_def)

section \<open>Properties of experiments.py\<close>

lemma bindS_Inr:
  "bindS m f w = (Inr b, w') \<longleftrightarrow> (\<exists>a w1. m w = (Inr a, w1) \<and> f a w1 = (Inr b, w'))"
  by (auto simp: bindS_def split: prod.splits sum.splits)


lemma returnS_eq [simp]: "returnS x w = (r, w') \<longleftrightarrow> r = Inr x \<and> w' = w"
  by (auto simp: returnS_def)

lemma raiseS_eq [simp]: "raiseS e w = (r, w') \<longleftrightarrow> r = Inl e \<and> w' = w"
  by (auto simp: raiseS_def)

lemma keeps_framesD:
  "keeps_frames m \<Longrightarrow> m w = (r, w') \<Longrightarrow> frames w' = frames w \<and> next_frame w' = next_frame w"
  by (auto simp: keeps_frames_def dest: spec [of _ w])

lemma keeps_returnS [simp]: "keeps_frames (returnS x)"
  by (simp add: keeps_frames_def returnS_def)

lemma keeps_raiseS [simp]: "keeps_frames (raiseS e)"
  by (simp add: keeps_frames_def raiseS_def)

lemma keeps_bindS: "keeps_frames m \<Longrightarrow> (\<And>a. keeps_frames (f a)) \<Longrightarrow> keeps_frames (bindS m f)"
  unfolding keeps_frames_def bindS_def
  by (auto split: prod.splits sum.splits) (metis snd_conv)+

lemma keeps_print [simp]: "keeps_frames (print s)"
  by (simp add: keeps_frames_def print_def)

lemma keeps_write_file [simp]: "keeps_frames (write_file p c)"
  by (simp add: keeps_frames_def write_file_def)

lemma keeps_read_text [simp]: "keeps_frames (read_text p)"
  by (simp add: keeps_frames_def read_text_def split: option.splits content.splits)

lemma keeps_update_run [simp]: "keeps_frames (update_run i f)"
  by (simp add: keeps_frames_def update_run_def split: option.splits)

lemma keeps_get_run [simp]: "keeps_frames (get_run i)"
  by (simp add: keeps_frames_def get_run_def split: option.splits)

lemma keeps_task_connect [simp]: "keeps_frames (task_connect d)"
  by (simp add: keeps_frames_def task_connect_def)

lemma keeps_start_run [simp]: "keeps_frames (start_run ev n)"
  by (simp add: keeps_frames_def start_run_def Let_def)

lemma keeps_read_frame [simp]: "keeps_frames (read_frame ref)"
  by (simp add: keeps_frames_def read_frame_def split: option.splits)

lemma keeps_log [simp]:
  "keeps_frames (log_param i k v)" "keeps_frames (log_metric i k x)" "keeps_frames (log_artifact i p)"
  "keeps_frames (end_run ev i st)"
  by (simp_all add: log_param_def log_metric_def log_artifact_def end_run_def)

lemma keeps_log_params [simp]: "keeps_frames (log_params i ps)"
  by (induction i ps rule: log_params.induct) (auto intro!: keeps_bindS)

lemma keeps_get_run_metric [simp]: "keeps_frames (get_run_metric i k)"
  by (auto simp: get_run_metric_def intro!: keeps_bindS split: option.splits)

lemma keeps_save_confusion_matrix [simp]: "keeps_frames (save_confusion_matrix cm n)"
  by (auto simp: save_confusion_matrix_def Let_def intro!: keeps_bindS)

lemma keeps_with_run: "(\<And>i. keeps_frames (body i)) \<Longrightarrow> keeps_frames (with_run ev n body)"
  unfolding with_run_def
  apply (rule keeps_bindS)
   apply simp
  apply (auto simp: keeps_frames_def end_run_def update_run_def split: prod.splits sum.splits option.splits)
     apply (metis snd_conv)+
  done

lemma keeps_log_model_with_metrics [simp]: "keeps_frames (log_model_with_metrics ev model n)"
  unfolding log_model_with_metrics_def Let_def
  by (auto intro!: keeps_with_run keeps_bindS split: sum.splits option.splits)

lemma keeps_run_experiment [simp]: "keeps_frames (run_experiment ev ex)"
  unfolding run_experiment_def
  by (auto intro!: keeps_bindS split: prod.splits)








lemma fst_bindS: "fst (m w) = Inr a \<Longrightarrow> fst (bindS m f w) = fst (f a (snd (m w)))"
  by (cases "m w") (simp add: bindS_def)



lemma fst_update_run [simp]: "fst (update_run i f w) = Inr ()"
  by (simp add: update_run_def)

lemma fst_log [simp]:
  "fst (log_param i k v w) = Inr ()" "fst (log_metric i k x w) = Inr ()"
  "fst (log_artifact i p w) = Inr ()" "fst (write_file p c w) = Inr ()" "fst (print s w) = Inr ()"
  by (simp_all add: log_param_def log_metric_def log_artifact_def write_file_def print_def)

lemma fst_log_params [simp]: "fst (log_params i ps w) = Inr ()"
  by (induction i ps arbitrary: w rule: log_params.induct) (simp_all add: returnS_def fst_bindS)

lemma fst_save_confusion_matrix [simp]:
  "fst (save_confusion_matrix cm n w) = Inr (''confusion_matrix_'' @ file_stem n @ ''.png'')"
  by (simp add: save_confusion_matrix_def Let_def fst_bindS returnS_def)






lemma round_metrics_Inr:
  "round_metrics ref ms w = (Inr u, w') \<Longrightarrow> frames w ref = Some rs \<Longrightarrow>
   w' = (if ms = [] then w else w\<lparr>frames := (frames w)(ref \<mapsto> map (fold round_column ms) rs)\<rparr>)"
proof (induction ms arbitrary: w rs)
  case Nil
  then show ?case by simp
next
  case (Cons m ms)
  from Cons.prems obtain w1 where
    1: "round_in_place ref m w = (Inr (), w1)" and 2: "round_metrics ref ms w1 = (Inr u, w')"
    by (auto simp: bindS_Inr)
  from 1 Cons.prems(2) have w1: "w1 = w\<lparr>frames := (frames w)(ref \<mapsto> map (round_column m) rs)\<rparr>"
    by (auto simp: round_in_place_def split: if_splits)
  then have f1: "frames w1 ref = Some (map (round_column m) rs)" by simp
  from Cons.IH [OF 2 f1] w1 show ?case by (cases "ms = []") simp_all
qed

definition rounded :: "run_record \<Rightarrow> run_record" where
  "rounded r = r\<lparr>accuracy := round4 (accuracy r), precision := round4 (precision r),
                 recall := round4 (recall r), f1_score := round4 (f1_score r)\<rparr>"

lemma fold_round_column:
  "fold round_column [''accuracy'', ''precision'', ''recall'', ''f1_score''] r = rounded r"
  by (simp add: round_column_def rounded_def)

lemma keeps_load_reports [simp]: "keeps_frames (load_reports rs d)"
  by (induction rs arbitrary: d) (auto intro!: keeps_bindS)

lemma keeps_get_mlflow_model_performance [simp]: "keeps_frames (get_mlflow_model_performance ids d)"
  by (induction ids arbitrary: d) (auto intro!: keeps_bindS split: sum.splits)

lemma keeps_enhance_report_generation [simp]: "keeps_frames (enhance_report_generation ref)"
  by (auto simp: enhance_report_generation_def generate_mlflow_performance_plot_def Let_def
      intro!: keeps_bindS)

lemma case_sum_io_Inr:
  "(case x of Inl e \<Rightarrow> raiseS e | Inr a \<Rightarrow> f a) w = (Inr b, w') \<longleftrightarrow>
   (\<exists>a. x = Inr a \<and> f a w = (Inr b, w'))"
  by (cases x) auto

lemma case_option_io_Inr:
  "(case x of None \<Rightarrow> m | Some e \<Rightarrow> raiseS e) w = (Inr b, w') \<longleftrightarrow>
   x = None \<and> m w = (Inr b, w')"
  by (cases x) auto

lemma generate_report_steps:
  assumes "generate_report ev ref w = (Inr u, w')"
  shows "\<exists>w1 fr w2 i j mr w3 tpl w4 pp pd w5 w6.
     round_metrics ref [''accuracy'', ''precision'', ''recall'', ''f1_score''] w = (Inr (), w1) \<and>
     read_frame ref w1 = (Inr fr, w1) \<and>
     write_file (path_join output_dir ''performance_comparison.png'')
       (Metrics_bar_chart (map display fr)) w1 = (Inr (), w2) \<and>
     idxmax (map f1_score fr) = Inr i \<and>
     idxmax (map accuracy fr) = Inr j \<and>
     load_reports fr [] w2 = (Inr mr, w3) \<and>
     read_text ''report_template.html'' w3 = (Inr tpl, w4) \<and>
     enhance_report_generation ref w4 = (Inr (pp, pd), w5) \<and>
     write_file (path_join output_dir ''index.html'')
       (Html tpl
         \<lparr>ctx_experiment_name = experiment_name,
          ctx_runs = map display fr,
          ctx_full_runs = fr,
          ctx_model_reports = mr,
          ctx_insights = [Best_model_sentence (Model (fr ! i)), Other_models_sentence,
                          Logistic_regression_sentence, Decision_tree_sentence],
          ctx_graph_path = ''performance_comparison.png'',
          ctx_current_date = strftime ev ''%Y-%m-%d %H:%M:%S'',
          ctx_experiment_id = strftime ev ''%Y%m%d%H%M%S'',
          best_accuracy = accuracy (fr ! j),
          best_precision = precision (fr ! j),
          best_recall = recall (fr ! j),
          best_f1_score = f1_score (fr ! j),
          ctx_mlflow_plot = pp,
          ctx_performance_data = pd\<rparr>) w5 = (Inr (), w6) \<and>
     print (''Report generated and saved to '' @ path_join output_dir ''index.html'') w6 = (Inr u, w')"
proof -
  have rf: "read_frame ref w1 = (Inr fr, w1a) \<Longrightarrow> w1a = w1" for w1 fr w1a
    by (auto simp: read_frame_def split: option.splits)
  show ?thesis
    using assms unfolding generate_report_def Let_def
    apply (simp add: bindS_Inr case_sum_io_Inr case_option_io_Inr case_prod_unfold)
    apply (elim exE conjE)
    apply (frule rf)
    apply simp
    done
qed


lemma generate_report_frames:
  assumes "generate_report ev ref w = (Inr u, w')"
    and "frames w ref = Some rs"
  shows "frames w' ref = Some (map rounded rs)"
proof -
  from generate_report_steps [OF assms(1)] obtain w1 fr w2 i j mr w3 tpl w4 pp pd w5 w6 ctx where
    1: "round_metrics ref [''accuracy'', ''precision'', ''recall'', ''f1_score''] w = (Inr (), w1)" and
    2: "write_file (path_join output_dir ''performance_comparison.png'')
          (Metrics_bar_chart (map display fr)) w1 = (Inr (), w2)" and
    3: "load_reports fr [] w2 = (Inr mr, w3)" and
    4: "read_text ''report_template.html'' w3 = (Inr tpl, w4)" and
    5: "enhance_report_generation ref w4 = (Inr (pp, pd), w5)" and
    6: "write_file (path_join output_dir ''index.html'') (Html tpl ctx) w5 = (Inr (), w6)" and
    7: "print (''Report generated and saved to '' @ path_join output_dir ''index.html'') w6 = (Inr u, w')"
    by blast
  from round_metrics_Inr [OF 1 assms(2)]
  have "frames w1 ref = Some (map rounded rs)"
    by (simp add: round_column_def rounded_def)
  moreover have "frames w' = frames w1"
    using keeps_framesD [OF keeps_write_file 2] keeps_framesD [OF keeps_load_reports 3]
      keeps_framesD [OF keeps_read_text 4] keeps_framesD [OF keeps_enhance_report_generation 5]
      keeps_framesD [OF keeps_write_file 6] keeps_framesD [OF keeps_print 7]
    by simp
  ultimately show ?thesis by simp
qed

text \<open>
  Claim C7, as amended. \<open>generate_report\<close> rounds the four metric columns of the table
  it was given where it stands (lines 197 and 198): when it returns, every row of the
  caller's table holds its four metrics rounded to four decimals, and its run id, its
  model name and its two paths as they were.
\<close>

theorem generate_report_rounds_in_place:
  assumes "generate_report ev ref w = (Inr u, w')"
    and "frames w ref = Some rs"
  shows "frames w' ref =
           Some (map (\<lambda>r. r\<lparr>accuracy := round4 (accuracy r), precision := round4 (precision r),
                               recall := round4 (recall r), f1_score := round4 (f1_score r)\<rparr>) rs)"
  using generate_report_frames [OF assms] by (simp add: rounded_def [abs_def])

lemma round4_example: "round4 (91234 / 100000) = 9123 / 10000" "round4 (9 / 10) = 9 / 10"
  "round4 (88 / 100) = 88 / 100" "round4 (95 / 100) = 95 / 100"
  by (simp_all add: round4_def round_half_even_def Let_def)

lemma example_report_runs: "fst (generate_report example_env 0 example_report_world) = Inr ()"
  by (simp add: generate_report_def bindS_def returnS_def raiseS_def round_in_place_def
      example_report_world_def example_runs_def round_column_def round4_example read_frame_def
      write_file_def idxmax_def path_join_def output_dir_def read_text_def example_env_def
      enhance_report_generation_def get_run_def performance_of_def example_run_def
      generate_mlflow_performance_plot_def print_def Let_def)


lemmas report_defs =
  generate_report_def bindS_def returnS_def raiseS_def round_in_place_def
  example_report_world_def example_runs_def round_column_def round4_example read_frame_def
  write_file_def idxmax_def path_join_def output_dir_def read_text_def example_env_def
  enhance_report_generation_def get_run_def performance_of_def example_run_def
  generate_mlflow_performance_plot_def print_def Let_def

lemma example_runs_rounded: "map rounded example_runs = example_runs_rounded"
  by (simp add: example_runs_def example_runs_rounded_def rounded_def round4_def
      round_half_even_def Let_def)

lemma example_report_run:
  "generate_report example_env 0 example_report_world =
     (Inr (), snd (generate_report example_env 0 example_report_world))"
  using example_report_runs by (metis prod.collapse)

lemma example_report_frame:
  "frames (snd (generate_report example_env 0 example_report_world)) 0 = Some example_runs_rounded"
proof -
  have "frames example_report_world 0 = Some example_runs"
    by (simp add: example_report_world_def)
  from generate_report_frames [OF example_report_run this] show ?thesis
    by (simp add: example_runs_rounded)
qed






theorem generate_report_rounds_in_place_witness:
  "generate_report example_env 0 example_report_world =
     (Inr (), snd (generate_report example_env 0 example_report_world)) \<and>
   frames example_report_world 0 = Some example_runs \<and>
   frames (snd (generate_report example_env 0 example_report_world)) 0 = Some example_runs_rounded"
proof -
  have f: "frames example_report_world 0 = Some example_runs"
    by (simp add: example_report_world_def)
  from generate_report_rounds_in_place [OF example_report_run f]
  have "frames (snd (generate_report example_env 0 example_report_world)) 0 =
          Some (map rounded example_runs)"
    by (simp add: rounded_def [abs_def])
  with example_report_run f show ?thesis
    by (simp add: example_runs_rounded)
qed

theorem report_rounds_callers_table:
  "fst (generate_report example_env 0 example_report_world) = Inr () \<and>
   frames example_report_world 0 = Some example_runs \<and>
   frames (snd (generate_report example_env 0 example_report_world)) 0 = Some example_runs_rounded \<and>
   accuracy (example_runs ! 0) = 91234 / 100000 \<and>
   accuracy (example_runs_rounded ! 0) = 9123 / 10000 \<and>
   example_runs_rounded \<noteq> example_runs"
  using example_report_runs example_report_frame
  by (simp add: example_report_world_def example_runs_def example_runs_rounded_def)


end
